theory Spec2Isabelle
  imports
    Main
    "HOL-Library.Char_ord"
    "HOL-Library.List_Lexorder"
    "HOL-Library.Product_Lexorder"
begin

section \<open>The sales table of the dashboard notebook\<close>

text \<open>
  The notebook \<^verbatim>\<open>C1_W2_Dashboard.ipynb\<close> reads one table, \<^verbatim>\<open>product_sales_df\<close>, from
  the query service. Its columns are \<^verbatim>\<open>orderdate\<close>, \<^verbatim>\<open>productline\<close>,
  \<^verbatim>\<open>productname\<close>, \<^verbatim>\<open>country\<close> and \<^verbatim>\<open>total_sales\<close>. A data frame is the list of
  its rows, in index order.

  \<^item> A timestamp is an integer on one linear time scale (the examples count days since
    1970-01-01); \<^verbatim>\<open>pd.Timestamp\<close> maps the pickers' dates onto the same scale.
  \<^item> The text columns hold strings, compared as Python compares them (by code point,
    a proper prefix first), which is the order of \<^typ>\<open>string\<close> here.
  \<^item> \<^verbatim>\<open>total_sales\<close> is a 64-bit integer column (\<^verbatim>\<open>int64\<close>): its values are integers
    from \<open>-2\<^sup>6\<^sup>3\<close> to \<open>2\<^sup>6\<^sup>3 - 1\<close>, and a sum of the column is computed in 64-bit
    arithmetic, which wraps around modulo \<open>2\<^sup>6\<^sup>4\<close>. A table whose totals are
    floating-point numbers is outside this embedding.
  \<^item> No column holds a missing value.

  After \<^verbatim>\<open>drop('orderdate', axis=1)\<close> a frame has the four remaining columns; these are
  the fields of \<open>row\<close>, and \<open>sale\<close> extends \<open>row\<close> by the order date.
\<close>

record row =
  productline :: string
  productname :: string
  country :: string
  total_sales :: int

record sale = row +
  orderdate :: int

subsection \<open>The data-frame operations used by the notebook\<close>

text \<open>\<^verbatim>\<open>df.drop('orderdate', axis=1)\<close>: a new frame without the date column.\<close>

definition drop_orderdate :: "sale list \<Rightarrow> row list" where
  "drop_orderdate df =
     map (\<lambda>r. \<lparr>productline = productline r, productname = productname r,
               country = country r, total_sales = total_sales r\<rparr>) df"

text \<open>
  \<^verbatim>\<open>df.groupby(keys)\<close>: the distinct key values in ascending order (\<^verbatim>\<open>sort=True\<close> is the
  default), each with the rows of its group in frame order.
\<close>

definition groupby :: "('r \<Rightarrow> 'k::linorder) \<Rightarrow> 'r list \<Rightarrow> ('k \<times> 'r list) list" where
  "groupby key df = map (\<lambda>k. (k, filter (\<lambda>r. key r = k) df)) (sort (remdups (map key df)))"

text \<open>
  The value a 64-bit signed integer holds after a computation whose exact result is \<open>x\<close>:
  the representative of \<open>x\<close> modulo \<open>2\<^sup>6\<^sup>4\<close> between \<open>-2\<^sup>6\<^sup>3\<close> and \<open>2\<^sup>6\<^sup>3 - 1\<close>.
\<close>

definition int64 :: "int \<Rightarrow> int" where
  "int64 x = (x + 2 ^ 63) mod 2 ^ 64 - 2 ^ 63"

text \<open>
  \<^verbatim>\<open>.sum()\<close> of a group adds the numeric column in 64-bit arithmetic: every addition
  wraps around, so the result is the exact sum brought back into the 64-bit range. A text
  column that is not a grouping key is summed as Python sums strings, by concatenation, in
  frame order (pandas 2; older releases leave such a column out of the result). No later
  step of the notebook reads a column summed in this way.
\<close>

definition sum_total_sales :: "row list \<Rightarrow> int" where
  "sum_total_sales g = int64 (sum_list (map total_sales g))"

definition sum_text :: "(row \<Rightarrow> string) \<Rightarrow> row list \<Rightarrow> string" where
  "sum_text col g = concat (map col g)"

text \<open>\<^verbatim>\<open>df.groupby(['productline', 'productname', 'country']).sum().reset_index()\<close>\<close>

definition groupby_productline_productname_country_sum :: "row list \<Rightarrow> row list" where
  "groupby_productline_productname_country_sum df =
     map (\<lambda>((pl, pn, c), g).
            \<lparr>productline = pl, productname = pn, country = c,
             total_sales = sum_total_sales g\<rparr>)
         (groupby (\<lambda>r. (productline r, productname r, country r)) df)"

text \<open>\<^verbatim>\<open>df.groupby(['productname', 'country']).sum().reset_index()\<close>\<close>

definition groupby_productname_country_sum :: "row list \<Rightarrow> row list" where
  "groupby_productname_country_sum df =
     map (\<lambda>((pn, c), g).
            \<lparr>productline = sum_text productline g, productname = pn, country = c,
             total_sales = sum_total_sales g\<rparr>)
         (groupby (\<lambda>r. (productname r, country r)) df)"

text \<open>\<^verbatim>\<open>df.groupby(['productname']).sum().reset_index()\<close>\<close>

definition groupby_productname_sum :: "row list \<Rightarrow> row list" where
  "groupby_productname_sum df =
     map (\<lambda>(pn, g).
            \<lparr>productline = sum_text productline g, productname = pn,
             country = sum_text country g, total_sales = sum_total_sales g\<rparr>)
         (groupby productname df)"

text \<open>
  \<^verbatim>\<open>df.sort_values("total_sales", ascending=False)\<close>: descending by the total. Rows with
  equal totals keep their frame order here; pandas' default sort does not promise an
  order among them, and no result below depends on it.
\<close>

definition sort_values_total_sales_desc :: "row list \<Rightarrow> row list" where
  "sort_values_total_sales_desc df = sort_key (\<lambda>r. - total_sales r) df"

text \<open>
  \<^verbatim>\<open>df.head(n)\<close> is \<^verbatim>\<open>df.iloc[:n]\<close>: the first \<open>n\<close> rows, and for a negative \<open>n\<close> all
  rows but the last \<open>-n\<close>.
\<close>

definition head :: "int \<Rightarrow> 'r list \<Rightarrow> 'r list" where
  "head n df = (if 0 \<le> n then take (nat n) df else take (length df - nat (- n)) df)"

subsection \<open>Formatting an integer\<close>

text \<open>Python's \<^verbatim>\<open>str\<close> of an integer, as the f-string of the title uses it.\<close>

fun digits :: "nat \<Rightarrow> string" where
  "digits n =
     (if n < 10 then [char_of (48 + n)]
      else digits (n div 10) @ [char_of (48 + n mod 10)])"

declare digits.simps [simp del]

definition str :: "int \<Rightarrow> string" where
  "str i = (if i < 0 then CHR ''-'' # digits (nat (- i)) else digits (nat i))"

section \<open>The plotting function\<close>

text \<open>
  What a call of \<^verbatim>\<open>plot_top_n_sales\<close> does to the outside world is a sequence of events:
  the call of \<^verbatim>\<open>sns.barplot\<close> with its \<^verbatim>\<open>x\<close>, \<^verbatim>\<open>y\<close> and \<^verbatim>\<open>data\<close> arguments, the call
  of \<^verbatim>\<open>ax.set\<close> with the two labels and the title, and a \<^verbatim>\<open>print\<close>. The notebook state
  is the global table and the events so far.
\<close>

datatype event =
  Barplot string string "row list"
| AxSet string string string
| Print string

record notebook =
  product_sales_df :: "sale list"
  events :: "event list"

text \<open>
  The plotting library is outside the repository. Each of its two calls either returns
  (\<open>None\<close>) or raises an exception; which one is a parameter of the model.
\<close>

datatype exn = Exn string

record plotlib =
  barplot :: "string \<Rightarrow> string \<Rightarrow> row list \<Rightarrow> exn option"
  ax_set :: "string \<Rightarrow> string \<Rightarrow> string \<Rightarrow> exn option"

text \<open>A Python statement either completes or raises.\<close>

datatype completion = Returns | Raises exn

definition emit :: "event \<Rightarrow> notebook \<Rightarrow> notebook" where
  "emit e nb = nb\<lparr>events := events nb @ [e]\<rparr>"

text \<open>
  The frame that \<^verbatim>\<open>filtered_df\<close> names when the function reaches its plotting part
  (lines 184 to 205 of the notebook source), and the title built alongside. The
  arguments \<open>country_arg\<close> and \<open>productline_arg\<close> are the source's \<^verbatim>\<open>country\<close> and
  \<^verbatim>\<open>productline\<close>, renamed apart from the columns.
\<close>

definition filter_and_aggregate ::
  "sale list \<Rightarrow> int \<Rightarrow> int \<Rightarrow> string \<Rightarrow> string \<Rightarrow> row list" where
  "filter_and_aggregate df start_date end_date country_arg productline_arg =
     (let filtered_df = filter (\<lambda>r. orderdate r \<ge> start_date \<and> orderdate r \<le> end_date) df;
          filtered_df = drop_orderdate filtered_df;
          filtered_df = groupby_productline_productname_country_sum filtered_df;
          filtered_df =
            (if productline_arg \<noteq> ''ALL''
             then filter (\<lambda>r. productline r = productline_arg) filtered_df
             else groupby_productname_country_sum filtered_df);
          filtered_df =
            (if country_arg \<noteq> ''ALL''
             then filter (\<lambda>r. country r = country_arg) filtered_df
             else groupby_productname_sum filtered_df)
      in filtered_df)"

definition build_title :: "string \<Rightarrow> string \<Rightarrow> int \<Rightarrow> string" where
  "build_title country_arg productline_arg top_n =
     (let title_str = ''Top '' @ str top_n @ '' Popular '';
          title_str =
            (if productline_arg \<noteq> ''ALL'' then title_str @ productline_arg
             else title_str @ ''Products'');
          title_str =
            (if country_arg \<noteq> ''ALL'' then title_str @ '' in '' @ country_arg
             else title_str)
      in title_str)"

text \<open>The body of the \<^verbatim>\<open>try\<close> block: the two library calls, the second only if the first returns.\<close>

definition try_body :: "plotlib \<Rightarrow> row list \<Rightarrow> string \<Rightarrow> int \<Rightarrow> notebook \<Rightarrow> completion \<times> notebook" where
  "try_body lib filtered_df title_str top_n nb =
     (let data = head top_n (sort_values_total_sales_desc filtered_df);
          nb = emit (Barplot ''total_sales'' ''productname'' data) nb
      in case barplot lib ''total_sales'' ''productname'' data of
           Some e \<Rightarrow> (Raises e, nb)
         | None \<Rightarrow>
             (let nb = emit (AxSet ''Total Sales'' ''Product Name'' title_str) nb
              in case ax_set lib ''Total Sales'' ''Product Name'' title_str of
                   Some e \<Rightarrow> (Raises e, nb)
                 | None \<Rightarrow> (Returns, nb)))"

definition plot_top_n_sales ::
  "plotlib \<Rightarrow> int \<Rightarrow> int \<Rightarrow> string \<Rightarrow> string \<Rightarrow> int \<Rightarrow> notebook \<Rightarrow> completion \<times> notebook" where
  "plot_top_n_sales lib start_date end_date country_arg productline_arg top_n nb =
     (let filtered_df =
            filter_and_aggregate (product_sales_df nb) start_date end_date country_arg productline_arg;
          title_str = build_title country_arg productline_arg top_n
      in if \<not> (filtered_df = [])
         then (case try_body lib filtered_df title_str top_n nb of
                 (Raises e, nb) \<Rightarrow> (Returns, emit (Print ''error'') nb)
               | (Returns, nb) \<Rightarrow> (Returns, nb))
         else (Returns,
               emit (Print (''There were no sales of '' @ productline_arg @ '' to '' @ country_arg
                            @ '' during that period'')) nb))"

text \<open>
  The events a call adds: those of the state after the call that were not there before it,
  and, among a list of events, the \<^verbatim>\<open>data\<close> arguments of the bar-plot calls.
\<close>

definition new_events :: "notebook \<Rightarrow> notebook \<Rightarrow> event list" where
  "new_events nb nb' = drop (length (events nb)) (events nb')"

fun barplot_data :: "event list \<Rightarrow> row list list" where
  "barplot_data [] = []"
| "barplot_data (Barplot x y d # es) = d # barplot_data es"
| "barplot_data (AxSet xl yl t # es) = barplot_data es"
| "barplot_data (Print m # es) = barplot_data es"

text \<open>The two columns of a plotted row that the bar plot reads: \<^verbatim>\<open>y\<close> and \<^verbatim>\<open>x\<close>.\<close>

definition name_total :: "row \<Rightarrow> string \<times> int" where
  "name_total r = (productname r, total_sales r)"

text \<open>
  A row of the table matches the two dropdown selections when each selection is either
  \<^verbatim>\<open>"ALL"\<close> or the row's own value.
\<close>

definition chosen :: "string \<Rightarrow> string \<Rightarrow> 'a row_scheme \<Rightarrow> bool" where
  "chosen country_arg productline_arg r \<longleftrightarrow>
     (productline_arg = ''ALL'' \<or> productline r = productline_arg) \<and>
     (country_arg = ''ALL'' \<or> country r = country_arg)"


section \<open>The plotting function on a store of objects\<close>

text \<open>
  The data frames of a Python program are objects: a name refers to an object, a pandas
  call may build a new object or, with \<^verbatim>\<open>inplace=True\<close>, change the object it is called on,
  and a change made through one name is seen through every other name of the same
  object. To follow what a call of \<^verbatim>\<open>plot_top_n_sales\<close> does to the table that the global
  name \<^verbatim>\<open>product_sales_df\<close> refers to, the function is given a second time here, on a
  store of data-frame objects. An object is a frame with the order date (\<open>SaleFrame\<close>) or
  without it (\<open>RowFrame\<close>); a reference is the position of an object in the store; the
  state holds the store, the reference bound to the global name, and the events so far.
  Only data frames are kept in the store (the boolean masks and the group-by objects are
  not).
\<close>

type_synonym ref = nat

datatype frame = SaleFrame "sale list" | RowFrame "row list"

record world =
  objects :: "frame list"
  product_sales_df_ref :: ref
  emitted :: "event list"

text \<open>
  A Python computation takes a state and returns a value or raises, in a new state.
  \<open>try_except\<close> is a \<^verbatim>\<open>try\<close> block with a bare \<^verbatim>\<open>except\<close>.
\<close>

type_synonym 'a py = "world \<Rightarrow> (exn + 'a) \<times> world"

definition py_bind :: "'a py \<Rightarrow> ('a \<Rightarrow> 'b py) \<Rightarrow> 'b py" where
  "py_bind m f w = (case m w of (Inl ex, w') \<Rightarrow> (Inl ex, w') | (Inr a, w') \<Rightarrow> f a w')"

definition py_return :: "'a \<Rightarrow> 'a py" where
  "py_return a w = (Inr a, w)"

definition py_raise :: "string \<Rightarrow> 'a py" where
  "py_raise name w = (Inl (Exn name), w)"

definition try_except :: "unit py \<Rightarrow> unit py \<Rightarrow> unit py" where
  "try_except body handler w =
     (case body w of (Inl ex, w') \<Rightarrow> handler w' | (Inr a, w') \<Rightarrow> (Inr a, w'))"

text \<open>Reading an object, building a new one (at the end of the store), overwriting one.\<close>

definition object_at :: "world \<Rightarrow> ref \<Rightarrow> frame option" where
  "object_at w r = (if r < length (objects w) then Some (objects w ! r) else None)"

definition new_object :: "frame \<Rightarrow> ref py" where
  "new_object f w = (Inr (length (objects w)), w\<lparr>objects := objects w @ [f]\<rparr>)"

definition set_object :: "ref \<Rightarrow> frame \<Rightarrow> unit py" where
  "set_object r f w = (Inr (), w\<lparr>objects := (objects w)[r := f]\<rparr>)"

text \<open>
  The pandas calls of the function, on references. Boolean indexing, \<^verbatim>\<open>groupby(...).sum()\<close>
  and \<^verbatim>\<open>head\<close> build a new frame. \<^verbatim>\<open>drop\<close>, \<^verbatim>\<open>reset_index\<close> and \<^verbatim>\<open>sort_values\<close> take
  \<^verbatim>\<open>inplace\<close> (\<open>False\<close> unless given): with \<open>False\<close> they build a new frame and return it,
  with \<open>True\<close> they change the frame they are called on and return \<^verbatim>\<open>None\<close>. A call on a
  frame that lacks the column it needs raises.
\<close>

definition global_product_sales_df :: "ref py" where
  "global_product_sales_df w = (Inr (product_sales_df_ref w), w)"

definition sale_rows :: "ref \<Rightarrow> sale list py" where
  "sale_rows r w =
     (case object_at w r of
        None \<Rightarrow> py_raise ''NameError'' w
      | Some (RowFrame rows) \<Rightarrow> py_raise ''AttributeError'' w
      | Some (SaleFrame rows) \<Rightarrow> py_return rows w)"

definition plain_rows :: "ref \<Rightarrow> row list py" where
  "plain_rows r w =
     (case object_at w r of
        None \<Rightarrow> py_raise ''NameError'' w
      | Some (SaleFrame rows) \<Rightarrow> py_raise ''TypeError'' w
      | Some (RowFrame rows) \<Rightarrow> py_return rows w)"

definition getitem_sale_mask :: "(sale \<Rightarrow> bool) \<Rightarrow> ref \<Rightarrow> ref py" where
  "getitem_sale_mask keep r =
     py_bind (sale_rows r) (\<lambda>rows. new_object (SaleFrame (filter keep rows)))"

definition getitem_mask :: "(row \<Rightarrow> bool) \<Rightarrow> ref \<Rightarrow> ref py" where
  "getitem_mask keep r =
     py_bind (plain_rows r) (\<lambda>rows. new_object (RowFrame (filter keep rows)))"

definition drop_orderdate_axis1 :: "bool \<Rightarrow> ref \<Rightarrow> ref option py" where
  "drop_orderdate_axis1 inplace r =
     py_bind (sale_rows r) (\<lambda>rows.
       if inplace
       then py_bind (set_object r (RowFrame (drop_orderdate rows))) (\<lambda>u. py_return None)
       else py_bind (new_object (RowFrame (drop_orderdate rows))) (\<lambda>a. py_return (Some a)))"

definition groupby_sum_obj :: "(row list \<Rightarrow> row list) \<Rightarrow> ref \<Rightarrow> ref py" where
  "groupby_sum_obj summed r =
     py_bind (plain_rows r) (\<lambda>rows. new_object (RowFrame (summed rows)))"

definition reset_index :: "bool \<Rightarrow> ref \<Rightarrow> ref option py" where
  "reset_index inplace r =
     py_bind (plain_rows r) (\<lambda>rows.
       if inplace then py_return None
       else py_bind (new_object (RowFrame rows)) (\<lambda>a. py_return (Some a)))"

definition sort_values_obj :: "bool \<Rightarrow> ref \<Rightarrow> ref option py" where
  "sort_values_obj inplace r =
     py_bind (plain_rows r) (\<lambda>rows.
       if inplace
       then py_bind (set_object r (RowFrame (sort_values_total_sales_desc rows))) (\<lambda>u. py_return None)
       else py_bind (new_object (RowFrame (sort_values_total_sales_desc rows)))
              (\<lambda>a. py_return (Some a)))"

definition head_obj :: "int \<Rightarrow> ref \<Rightarrow> ref py" where
  "head_obj n r = py_bind (plain_rows r) (\<lambda>rows. new_object (RowFrame (head n rows)))"

definition result_frame :: "ref option \<Rightarrow> ref py" where
  "result_frame res = (case res of None \<Rightarrow> py_raise ''AttributeError'' | Some a \<Rightarrow> py_return a)"

definition empty_obj :: "ref \<Rightarrow> bool py" where
  "empty_obj r = py_bind (plain_rows r) (\<lambda>rows. py_return (rows = []))"

definition emit_obj :: "event \<Rightarrow> unit py" where
  "emit_obj ev w = (Inr (), w\<lparr>emitted := emitted w @ [ev]\<rparr>)"

definition call_barplot :: "plotlib \<Rightarrow> string \<Rightarrow> string \<Rightarrow> ref \<Rightarrow> unit py" where
  "call_barplot lib x y r =
     py_bind (plain_rows r) (\<lambda>data.
     py_bind (emit_obj (Barplot x y data)) (\<lambda>u w.
       case barplot lib x y data of Some ex \<Rightarrow> (Inl ex, w) | None \<Rightarrow> (Inr (), w)))"

definition call_ax_set :: "plotlib \<Rightarrow> string \<Rightarrow> string \<Rightarrow> string \<Rightarrow> unit py" where
  "call_ax_set lib xlabel ylabel title =
     py_bind (emit_obj (AxSet xlabel ylabel title)) (\<lambda>u w.
       case ax_set lib xlabel ylabel title of Some ex \<Rightarrow> (Inl ex, w) | None \<Rightarrow> (Inr (), w))"

text \<open>
  The function, statement by statement: each assignment to the local name
  \<^verbatim>\<open>filtered_df\<close> binds it to the reference the right-hand side returns. No call of the
  source passes \<^verbatim>\<open>inplace\<close>.
\<close>

definition filtered_df_obj :: "int \<Rightarrow> int \<Rightarrow> string \<Rightarrow> string \<Rightarrow> ref py" where
  "filtered_df_obj start_date end_date country_arg productline_arg =
     py_bind global_product_sales_df (\<lambda>product_sales_df.
     py_bind (getitem_sale_mask (\<lambda>r. orderdate r \<ge> start_date \<and> orderdate r \<le> end_date)
                product_sales_df) (\<lambda>filtered_df.
     py_bind (py_bind (drop_orderdate_axis1 False filtered_df) result_frame) (\<lambda>filtered_df.
     py_bind (py_bind (py_bind (groupby_sum_obj groupby_productline_productname_country_sum filtered_df)
                         (reset_index False)) result_frame) (\<lambda>filtered_df.
     py_bind (if productline_arg \<noteq> ''ALL''
              then getitem_mask (\<lambda>r. productline r = productline_arg) filtered_df
              else py_bind (py_bind (groupby_sum_obj groupby_productname_country_sum filtered_df)
                              (reset_index False)) result_frame) (\<lambda>filtered_df.
     py_bind (if country_arg \<noteq> ''ALL''
              then getitem_mask (\<lambda>r. country r = country_arg) filtered_df
              else py_bind (py_bind (groupby_sum_obj groupby_productname_sum filtered_df)
                              (reset_index False)) result_frame)
       py_return)))))"

definition try_body_obj :: "plotlib \<Rightarrow> ref \<Rightarrow> string \<Rightarrow> int \<Rightarrow> unit py" where
  "try_body_obj lib filtered_df title_str top_n =
     py_bind (py_bind (py_bind (sort_values_obj False filtered_df) result_frame)
                (head_obj top_n)) (\<lambda>data.
     py_bind (call_barplot lib ''total_sales'' ''productname'' data) (\<lambda>ax.
     call_ax_set lib ''Total Sales'' ''Product Name'' title_str))"

definition plot_top_n_sales_obj ::
  "plotlib \<Rightarrow> int \<Rightarrow> int \<Rightarrow> string \<Rightarrow> string \<Rightarrow> int \<Rightarrow> unit py" where
  "plot_top_n_sales_obj lib start_date end_date country_arg productline_arg top_n =
     py_bind (filtered_df_obj start_date end_date country_arg productline_arg) (\<lambda>filtered_df.
     py_bind (empty_obj filtered_df) (\<lambda>empty.
       if \<not> empty
       then try_except
              (try_body_obj lib filtered_df (build_title country_arg productline_arg top_n) top_n)
              (emit_obj (Print ''error''))
       else emit_obj (Print (''There were no sales of '' @ productline_arg @ '' to '' @ country_arg
                             @ '' during that period''))))"

section \<open>The widgets of the dashboard\<close>

text \<open>
  The keyword arguments of \<^verbatim>\<open>widgets.interact\<close> (lines 158 to 178 of the notebook source).
  A date picker has a value and a description; a dropdown has options, a value and a
  description; an integer slider has a value, a minimum, a maximum, a step and a
  description. \<^verbatim>\<open>orderdate.min()\<close> of an empty table is no date (\<open>None\<close>).
\<close>

datatype widget =
  DatePicker "int option" string
| Dropdown "string list" string string
| IntSlider int int int int string

definition orderdate_min :: "sale list \<Rightarrow> int option" where
  "orderdate_min df =
     (case df of [] \<Rightarrow> None | r # rs \<Rightarrow> Some (fold min (map orderdate rs) (orderdate r)))"

definition orderdate_max :: "sale list \<Rightarrow> int option" where
  "orderdate_max df =
     (case df of [] \<Rightarrow> None | r # rs \<Rightarrow> Some (fold max (map orderdate rs) (orderdate r)))"

definition country_widget :: "sale list \<Rightarrow> widget" where
  "country_widget df = Dropdown (''ALL'' # sort (remdups (map country df))) ''ALL'' ''Country''"

definition productline_widget :: "sale list \<Rightarrow> widget" where
  "productline_widget df =
     Dropdown (''ALL'' # sort (remdups (map productline df))) ''ALL'' ''Product Line''"

definition interact :: "sale list \<Rightarrow> (string \<times> widget) list" where
  "interact df =
     [(''start_date'', DatePicker (orderdate_min df) ''Start Date''),
      (''end_date'', DatePicker (orderdate_max df) ''End Date''),
      (''country'', country_widget df),
      (''productline'', productline_widget df),
      (''top_n'', IntSlider 5 1 10 1 ''Top N'')]"

section \<open>The declared Glue resources\<close>

text \<open>
  The Terraform fragment declares its resources from input variables and from the role
  \<^verbatim>\<open>aws_iam_role.glue_role\<close>, which is declared elsewhere; both are parameters here. String
  interpolation is concatenation.
\<close>

record tf_input =
  var_project :: string
  var_data_lake_bucket :: string
  var_scripts_bucket :: string
  var_scripts_key :: string
  glue_role_arn :: string

record aws_glue_crawler =
  crawler_name :: string
  database_name :: string
  crawler_role :: string
  s3_target_path :: string
  recrawl_behavior :: string
  delete_behavior :: string
  update_behavior :: string

record aws_glue_job =
  job_name :: string
  role_arn :: string
  glue_version :: string
  connections :: "string list"
  command_name :: string
  script_location :: string
  python_version :: int
  default_arguments :: "(string \<times> string) list"
  timeout :: int
  number_of_workers :: int
  worker_type :: string

definition ml_database_name :: "tf_input \<Rightarrow> string" where
  "ml_database_name v = var_project v @ ''-ml-db''"

definition rds_connection_name :: "tf_input \<Rightarrow> string" where
  "rds_connection_name v = var_project v @ ''-rds-connection''"

definition s3_crawler :: "tf_input \<Rightarrow> aws_glue_crawler" where
  "s3_crawler v =
     \<lparr>crawler_name = var_project v @ ''-ml-db-crawler'',
      database_name = ml_database_name v,
      crawler_role = glue_role_arn v,
      s3_target_path = ''s3://'' @ var_data_lake_bucket v @ ''/gold'',
      recrawl_behavior = ''CRAWL_NEW_FOLDERS_ONLY'',
      delete_behavior = ''LOG'',
      update_behavior = ''LOG''\<rparr>"

definition etl_job :: "tf_input \<Rightarrow> aws_glue_job" where
  "etl_job v =
     \<lparr>job_name = var_project v @ ''-etl-job'',
      role_arn = glue_role_arn v,
      glue_version = ''4.0'',
      connections = [rds_connection_name v],
      command_name = ''glueetl'',
      script_location = ''s3://'' @ var_scripts_bucket v @ ''/'' @ var_scripts_key v,
      python_version = 3,
      default_arguments =
        [(''--enable-job-insights'', ''true''),
         (''--job-language'', ''python''),
         (''--glue_connection'', rds_connection_name v),
         (''--glue_database'', ml_database_name v),
         (''--target_path'', ''s3://'' @ var_data_lake_bucket v)],
      timeout = 5,
      number_of_workers = 2,
      worker_type = ''G.1X''\<rparr>"

section \<open>Notions used in the statements\<close>

text \<open>
  A frame \<open>F\<close> aggregates the rows of \<open>D\<close> that satisfy \<open>P\<close> by the key \<open>key\<close> when its
  keys are strictly ascending, are exactly the keys of those rows, and each of its rows
  carries the 64-bit sum of \<^verbatim>\<open>total_sales\<close> over the rows of its key.
\<close>

definition aggregate_of ::
  "(row \<Rightarrow> 'k::linorder) \<Rightarrow> (row \<Rightarrow> bool) \<Rightarrow> row list \<Rightarrow> row list \<Rightarrow> bool" where
  "aggregate_of key P D F \<longleftrightarrow>
     sorted_wrt (<) (map key F) \<and>
     set (map key F) = key ` {r \<in> set D. P r} \<and>
     (\<forall>g\<in>set F. total_sales g =
        int64 (sum_list (map total_sales (filter (\<lambda>r. P r \<and> key r = key g) D))))"

text \<open>
  The store of the state \<open>w'\<close> keeps that of \<open>w\<close> when every object of \<open>w\<close> is still
  there, unchanged and at its place, and the global name refers to the same object. A
  computation keeps the store when it does so from every state. A computation gives \<open>Q\<close>
  from \<open>w\<close> when it returns there, without an event, a value and a state that satisfy
  \<open>Q\<close>.
\<close>

definition store_kept :: "world \<Rightarrow> world \<Rightarrow> bool" where
  "store_kept w w' \<longleftrightarrow>
     take (length (objects w)) (objects w') = objects w \<and>
     length (objects w) \<le> length (objects w') \<and>
     product_sales_df_ref w' = product_sales_df_ref w"

definition keeps :: "'a py \<Rightarrow> bool" where
  "keeps m \<longleftrightarrow> (\<forall>w. store_kept w (snd (m w)))"

definition gives :: "'a py \<Rightarrow> world \<Rightarrow> ('a \<Rightarrow> world \<Rightarrow> bool) \<Rightarrow> bool" where
  "gives m w Q \<longleftrightarrow> (\<exists>a w'. m w = (Inr a, w') \<and> emitted w' = emitted w \<and> Q a w')"

subsection \<open>The filter cascade as the specification lists it\<close>

text \<open>
  The specification lists the steps of the dashboard as: filter by date range, then
  filter or aggregate by product line, then filter or aggregate by country, then sort
  descending by the sum, then take the top N, then plot. The definitions below follow
  that list, one per step: a selection other than \<^verbatim>\<open>"ALL"\<close> filters, \<^verbatim>\<open>"ALL"\<close> aggregates.
  The first step keeps the rows of the date range, as rows of the four columns that
  remain once the date has served.
\<close>

definition spec_filter_by_date_range :: "int \<Rightarrow> int \<Rightarrow> sale list \<Rightarrow> row list" where
  "spec_filter_by_date_range start_date end_date df =
     drop_orderdate (filter (\<lambda>r. start_date \<le> orderdate r \<and> orderdate r \<le> end_date) df)"

definition spec_product_line_step :: "string \<Rightarrow> row list \<Rightarrow> row list" where
  "spec_product_line_step productline_arg F =
     (if productline_arg = ''ALL'' then groupby_productname_country_sum F
      else filter (\<lambda>r. productline r = productline_arg) F)"

definition spec_country_step :: "string \<Rightarrow> row list \<Rightarrow> row list" where
  "spec_country_step country_arg F =
     (if country_arg = ''ALL'' then groupby_productname_sum F
      else filter (\<lambda>r. country r = country_arg) F)"

definition spec_top_n_sorted :: "int \<Rightarrow> row list \<Rightarrow> row list" where
  "spec_top_n_sorted top_n F = head top_n (sort_values_total_sales_desc F)"

definition spec_listed_frame :: "sale list \<Rightarrow> int \<Rightarrow> int \<Rightarrow> string \<Rightarrow> string \<Rightarrow> row list" where
  "spec_listed_frame df start_date end_date country_arg productline_arg =
     spec_country_step country_arg
       (spec_product_line_step productline_arg
          (spec_filter_by_date_range start_date end_date df))"

text \<open>
  The same list with one step more after the date filter: the sum of \<^verbatim>\<open>total_sales\<close> per
  product line, product name and country.
\<close>

definition staged_frame :: "sale list \<Rightarrow> int \<Rightarrow> int \<Rightarrow> string \<Rightarrow> string \<Rightarrow> row list" where
  "staged_frame df start_date end_date country_arg productline_arg =
     spec_country_step country_arg
       (spec_product_line_step productline_arg
          (groupby_productline_productname_country_sum
             (spec_filter_by_date_range start_date end_date df)))"

subsection \<open>Concrete tables and libraries\<close>

text \<open>The table of the specification's example; the dates are days since 1970-01-01.\<close>

definition spec_example_df :: "sale list" where
  "spec_example_df =
     [\<lparr>productline = ''Motorcycles'', productname = ''P1'', country = ''USA'',
       total_sales = 100, orderdate = 19723\<rparr>,
      \<lparr>productline = ''Motorcycles'', productname = ''P1'', country = ''France'',
       total_sales = 50, orderdate = 19754\<rparr>]"

text \<open>
  A table with three products in two product lines and two countries, one product sold
  twice in the same country on different days, and one sale outside the range of days
  1 to 3.
\<close>

definition sample_df :: "sale list" where
  "sample_df =
     [\<lparr>productline = ''Cars'', productname = ''A'', country = ''US'',
       total_sales = 10, orderdate = 1\<rparr>,
      \<lparr>productline = ''Cars'', productname = ''A'', country = ''US'',
       total_sales = 5, orderdate = 2\<rparr>,
      \<lparr>productline = ''Cars'', productname = ''A'', country = ''FR'',
       total_sales = 7, orderdate = 3\<rparr>,
      \<lparr>productline = ''Bikes'', productname = ''B'', country = ''US'',
       total_sales = 20, orderdate = 3\<rparr>,
      \<lparr>productline = ''Bikes'', productname = ''C'', country = ''FR'',
       total_sales = 4, orderdate = 1\<rparr>,
      \<lparr>productline = ''Bikes'', productname = ''B'', country = ''US'',
       total_sales = 100, orderdate = 9\<rparr>]"



definition sample_nb :: notebook where
  "sample_nb = \<lparr>product_sales_df = sample_df, events = []\<rparr>"

text \<open>A store whose only object is the sample table, bound to the global name.\<close>

definition sample_world :: world where
  "sample_world = \<lparr>objects = [SaleFrame sample_df], product_sales_df_ref = 0, emitted = []\<rparr>"

text \<open>A plotting library whose calls return, one whose bar plot raises, one whose \<^verbatim>\<open>ax.set\<close> raises.\<close>

definition lib_ok :: plotlib where
  "lib_ok = \<lparr>barplot = (\<lambda>x y d. None), ax_set = (\<lambda>xl yl t. None)\<rparr>"

definition lib_barplot_raises :: plotlib where
  "lib_barplot_raises =
     \<lparr>barplot = (\<lambda>x y d. Some (Exn ''ValueError'')), ax_set = (\<lambda>xl yl t. None)\<rparr>"

definition lib_ax_set_raises :: plotlib where
  "lib_ax_set_raises =
     \<lparr>barplot = (\<lambda>x y d. None), ax_set = (\<lambda>xl yl t. Some (Exn ''AttributeError''))\<rparr>"

section \<open>Grouping and summing\<close>

text \<open>
  64-bit sums: the wrapped value depends on the exact value modulo \<open>2\<^sup>6\<^sup>4\<close> only, it is the
  exact value when that lies in the 64-bit range, and wrapping the summands first changes
  nothing.
\<close>

lemma int64_cong: "x mod 2 ^ 64 = y mod 2 ^ 64 \<Longrightarrow> int64 x = int64 y"
proof -
  assume "x mod 2 ^ 64 = y mod 2 ^ 64"
  then have "(x + 2 ^ 63) mod 2 ^ 64 = (y + 2 ^ 63) mod (2 ^ 64 :: int)"
    by (rule mod_add_cong) simp
  then show ?thesis by (simp add: int64_def)
qed

lemma int64_mod: "int64 x mod 2 ^ 64 = x mod 2 ^ 64"
proof -
  have "int64 x mod 2 ^ 64 = ((x + 2 ^ 63) mod 2 ^ 64 - 2 ^ 63 mod 2 ^ 64) mod 2 ^ 64"
    unfolding int64_def by (simp add: mod_diff_right_eq)
  also have "\<dots> = (x + 2 ^ 63 - 2 ^ 63) mod 2 ^ 64"
    by (simp only: mod_diff_eq)
  finally show ?thesis by simp
qed


lemma int64_range: "- (2 ^ 63) \<le> int64 x \<and> int64 x < 2 ^ 63"
proof -
  have "0 \<le> (x + 2 ^ 63) mod (2 ^ 64 :: int)" and "(x + 2 ^ 63) mod (2 ^ 64 :: int) < 2 ^ 64"
    by simp_all
  then show ?thesis by (simp add: int64_def)
qed

lemma sum_list_mod_int64:
  "sum_list (map (\<lambda>x. int64 (f x)) xs) mod 2 ^ 64 = sum_list (map f xs) mod 2 ^ 64"
proof (induction xs)
  case Nil
  then show ?case by simp
next
  case (Cons x xs)
  from mod_add_cong[OF int64_mod Cons.IH] show ?case
    by (simp only: list.map sum_list.Cons)
qed

lemma int64_sum_list_int64:
  "int64 (sum_list (map (\<lambda>x. int64 (f x)) xs)) = int64 (sum_list (map f xs))"
  by (rule int64_cong) (rule sum_list_mod_int64)

text \<open>Summing group by group is summing over the rows whose key is one of the groups'.\<close>

lemma sum_groups:
  fixes f :: "'r \<Rightarrow> int"
  shows "finite K \<Longrightarrow> (\<Sum>k\<in>K. sum_list (map f (filter (\<lambda>r. key r = k) D))) = sum_list (map f (filter (\<lambda>r. key r \<in> K) D))"
proof (induction D)
  case Nil
  then show ?case by simp
next
  case (Cons r D)
  have "(\<Sum>k\<in>K. sum_list (map f (filter (\<lambda>x. key x = k) (r # D))))
      = (\<Sum>k\<in>K. (if key r = k then f r else 0) + sum_list (map f (filter (\<lambda>x. key x = k) D)))"
    by (rule sum.cong) auto
  also have "\<dots> = (\<Sum>k\<in>K. (if key r = k then f r else 0)) + (\<Sum>k\<in>K. sum_list (map f (filter (\<lambda>x. key x = k) D)))"
    by (simp add: sum.distrib)
  also have "(\<Sum>k\<in>K. (if key r = k then f r else 0)) = (if key r \<in> K then f r else 0)"
    using Cons.prems by (simp add: sum.delta')
  finally show ?case using Cons by simp
qed

text \<open>
  How the aggregate invariant is established by a \<^verbatim>\<open>groupby(...).sum()\<close>, kept by a filter
  on the key, carried over to a coarser key by a second \<^verbatim>\<open>groupby(...).sum()\<close>, and read
  under a coarser key when the selection fixes the rest of the key.
\<close>

lemma aggregate_of_groupby:
  assumes keys: "map key F = sort (remdups (map key D))"
    and tot: "\<And>g. g \<in> set F \<Longrightarrow>
          total_sales g = int64 (sum_list (map total_sales (filter (\<lambda>r. key r = key g) D)))"
  shows "aggregate_of key (\<lambda>_. True) D F"
proof -
  have "sorted_wrt (<) (map key F)"
    by (simp add: keys strict_sorted_iff)
  moreover have "set (map key F) = key ` {r \<in> set D. True}"
    by (simp add: keys)
  ultimately show ?thesis
    unfolding aggregate_of_def using tot by simp
qed

lemma aggregate_of_filter:
  assumes "aggregate_of key P D F"
  shows "aggregate_of key (\<lambda>r. P r \<and> q (key r)) D (filter (\<lambda>g. q (key g)) F)"
proof -
  from assms have s: "sorted_wrt (<) (map key F)"
    and k: "set (map key F) = key ` {r \<in> set D. P r}"
    and t: "\<And>g. g \<in> set F \<Longrightarrow>
          total_sales g = int64 (sum_list (map total_sales (filter (\<lambda>r. P r \<and> key r = key g) D)))"
    by (auto simp: aggregate_of_def)
  have "sorted_wrt (<) (map key (filter (\<lambda>g. q (key g)) F))"
    using s by (simp add: sorted_wrt_map sorted_wrt_filter)
  moreover have "set (map key (filter (\<lambda>g. q (key g)) F)) = key ` {r \<in> set D. P r \<and> q (key r)}"
  proof -
    have "set (map key (filter (\<lambda>g. q (key g)) F)) = {k \<in> set (map key F). q k}" by auto
    also have "\<dots> = {k \<in> key ` {r \<in> set D. P r}. q k}" by (simp only: k)
    also have "\<dots> = key ` {r \<in> set D. P r \<and> q (key r)}" by auto
    finally show ?thesis .
  qed
  moreover have "total_sales g =
      int64 (sum_list (map total_sales (filter (\<lambda>r. (P r \<and> q (key r)) \<and> key r = key g) D)))"
    if "g \<in> set (filter (\<lambda>g. q (key g)) F)" for g
  proof -
    from that have g: "g \<in> set F" and q: "q (key g)" by auto
    have "filter (\<lambda>r. (P r \<and> q (key r)) \<and> key r = key g) D = filter (\<lambda>r. P r \<and> key r = key g) D"
      by (rule filter_cong) (auto simp: q)
    then show ?thesis using t[OF g] by simp
  qed
  ultimately show ?thesis unfolding aggregate_of_def by blast
qed

lemma aggregate_of_regroup:
  fixes key :: "row \<Rightarrow> 'k::linorder" and key' :: "row \<Rightarrow> 'j::linorder"
  assumes agg: "aggregate_of key P D F"
    and h: "\<And>r. key' r = h (key r)"
    and keys: "map key' F' = sort (remdups (map key' F))"
    and tot: "\<And>g. g \<in> set F' \<Longrightarrow>
          total_sales g = int64 (sum_list (map total_sales (filter (\<lambda>r. key' r = key' g) F)))"
  shows "aggregate_of key' P D F'"
proof -
  from agg have s: "sorted_wrt (<) (map key F)"
    and k: "set (map key F) = key ` {r \<in> set D. P r}"
    and t: "\<And>g. g \<in> set F \<Longrightarrow>
          total_sales g = int64 (sum_list (map total_sales (filter (\<lambda>r. P r \<and> key r = key g) D)))"
    by (auto simp: aggregate_of_def)
  have d: "distinct (map key F)" using s by (simp add: strict_sorted_iff)
  have "sorted_wrt (<) (map key' F')"
    by (simp add: keys strict_sorted_iff)
  moreover have "set (map key' F') = key' ` {r \<in> set D. P r}"
  proof -
    have "set (map key' F') = h ` set (map key F)" by (auto simp: keys h)
    also have "\<dots> = key' ` {r \<in> set D. P r}"
    proof -
      have "key' = (\<lambda>r. h (key r))" by (rule ext) (rule h)
      then show ?thesis by (simp only: k image_image)
    qed
    finally show ?thesis .
  qed
  moreover have "total_sales g' =
      int64 (sum_list (map total_sales (filter (\<lambda>r. P r \<and> key' r = key' g') D)))"
    if g': "g' \<in> set F'" for g'
  proof -
    define T where "T j = sum_list (map total_sales (filter (\<lambda>r. key r = j) (filter P D)))" for j
    define K where "K = {j \<in> set (map key F). h j = key' g'}"
    have fin: "finite K" by (simp add: K_def)
    have exact: "sum_list (map (\<lambda>g. T (key g)) (filter (\<lambda>r. key' r = key' g') F))
        = sum_list (map total_sales (filter (\<lambda>r. P r \<and> key' r = key' g') D))"
    proof -
      have "sum_list (map (\<lambda>g. T (key g)) (filter (\<lambda>r. key' r = key' g') F))
          = sum_list (map T (filter (\<lambda>j. h j = key' g') (map key F)))"
        by (simp add: filter_map comp_def h)
      also have "\<dots> = sum T (set (filter (\<lambda>j. h j = key' g') (map key F)))"
        by (rule sum_list_distinct_conv_sum_set) (simp add: d)
      also have "\<dots> = sum T K" by (simp add: K_def)
      also have "\<dots> = sum_list (map total_sales (filter (\<lambda>r. key r \<in> K) (filter P D)))"
        unfolding T_def by (rule sum_groups[OF fin])
      also have "filter (\<lambda>r. key r \<in> K) (filter P D) = filter (\<lambda>r. P r \<and> key' r = key' g') D"
        unfolding filter_filter
      proof (rule filter_cong[OF refl])
        fix r assume r: "r \<in> set D"
        have "key ` set F = key ` {r \<in> set D. P r}" using k by simp
        then have "P r \<Longrightarrow> key r \<in> key ` set F" using r by blast
        then show "(P r \<and> key r \<in> K) = (P r \<and> key' r = key' g')"
          by (auto simp: K_def h)
      qed
      finally show ?thesis .
    qed
    have "total_sales g' = int64 (sum_list (map total_sales (filter (\<lambda>r. key' r = key' g') F)))"
      by (rule tot[OF g'])
    also have "sum_list (map total_sales (filter (\<lambda>r. key' r = key' g') F))
        = sum_list (map (\<lambda>g. int64 (T (key g))) (filter (\<lambda>r. key' r = key' g') F))"
    proof (rule arg_cong[where f = sum_list], rule map_cong[OF refl])
      fix g assume "g \<in> set (filter (\<lambda>r. key' r = key' g') F)"
      then have "g \<in> set F" by simp
      then show "total_sales g = int64 (T (key g))"
        by (simp add: t T_def conj_commute)
    qed
    also have "int64 \<dots> = int64 (sum_list (map (\<lambda>g. T (key g)) (filter (\<lambda>r. key' r = key' g') F)))"
      by (rule int64_sum_list_int64)
    finally show ?thesis by (simp only: exact)
  qed
  ultimately show ?thesis unfolding aggregate_of_def by blast
qed

lemma aggregate_of_coarsen:
  fixes key :: "row \<Rightarrow> 'k::linorder" and key' :: "row \<Rightarrow> 'j::linorder"
  assumes agg: "aggregate_of key P D F"
    and h: "\<And>r. key' r = h (key r)"
    and mono: "\<And>r r'. P r \<Longrightarrow> P r' \<Longrightarrow> key r < key r' \<Longrightarrow> key' r < key' r'"
  shows "aggregate_of key' P D F"
proof -
  from agg have s: "sorted_wrt (<) (map key F)"
    and k: "set (map key F) = key ` {r \<in> set D. P r}"
    and t: "\<And>g. g \<in> set F \<Longrightarrow>
          total_sales g = int64 (sum_list (map total_sales (filter (\<lambda>r. P r \<and> key r = key g) D)))"
    by (auto simp: aggregate_of_def)
  have rep: "\<exists>r. r \<in> set D \<and> P r \<and> key r = key g" if "g \<in> set F" for g
  proof -
    from that have "key g \<in> set (map key F)" by simp
    then show ?thesis unfolding k by auto
  qed
  have inj: "key r = key r'" if "P r" "P r'" "key' r = key' r'" for r r'
    using mono[of r r'] mono[of r' r] that by (metis less_irrefl linorder_neqE)
  have "sorted_wrt (\<lambda>g g'. key' g < key' g') F"
  proof (rule sorted_wrt_mono_rel[where P = "\<lambda>g g'. key g < key g'"])
    fix g g' assume "g \<in> set F" "g' \<in> set F" "key g < key g'"
    then obtain r r' where "P r" "key r = key g" "P r'" "key r' = key g'"
      using rep by metis
    with \<open>key g < key g'\<close> have "key' r < key' r'" using mono by simp
    then show "key' g < key' g'" using \<open>key r = key g\<close> \<open>key r' = key g'\<close> by (simp add: h)
  next
    show "sorted_wrt (\<lambda>g g'. key g < key g') F" using s by (simp add: sorted_wrt_map)
  qed
  then have "sorted_wrt (<) (map key' F)" by (simp add: sorted_wrt_map)
  moreover have "set (map key' F) = key' ` {r \<in> set D. P r}"
  proof -
    have "set (map key' F) = h ` set (map key F)" by (auto simp: h)
    also have "\<dots> = key' ` {r \<in> set D. P r}"
    proof -
      have "key' = (\<lambda>r. h (key r))" by (rule ext) (rule h)
      then show ?thesis by (simp only: k image_image)
    qed
    finally show ?thesis .
  qed
  moreover have "total_sales g =
      int64 (sum_list (map total_sales (filter (\<lambda>r. P r \<and> key' r = key' g) D)))"
    if g: "g \<in> set F" for g
  proof -
    from rep[OF g] obtain r0 where r0: "P r0" "key r0 = key g" by blast
    have "filter (\<lambda>r. P r \<and> key' r = key' g) D = filter (\<lambda>r. P r \<and> key r = key g) D"
    proof (rule filter_cong[OF refl])
      fix r assume "r \<in> set D"
      show "(P r \<and> key' r = key' g) = (P r \<and> key r = key g)"
      proof (cases "P r")
        case True
        have "key' g = key' r0" using r0 by (simp add: h)
        then show ?thesis using inj[of r r0] True r0 by (auto simp: h)
      qed simp
    qed
    then show ?thesis using t[OF g] by simp
  qed
  ultimately show ?thesis unfolding aggregate_of_def by blast
qed

text \<open>The keys and the totals of the three \<^verbatim>\<open>groupby(...).sum()\<close> calls of the notebook.\<close>

lemma groupby3_keys:
  "map (\<lambda>r. (productline r, productname r, country r)) (groupby_productline_productname_country_sum D)
     = sort (remdups (map (\<lambda>r. (productline r, productname r, country r)) D))"
  by (simp add: groupby_productline_productname_country_sum_def groupby_def comp_def case_prod_beta)

lemma groupby3_total:
  "g \<in> set (groupby_productline_productname_country_sum D) \<Longrightarrow>
   total_sales g = int64 (sum_list (map total_sales
     (filter (\<lambda>r. (productline r, productname r, country r) = (productline g, productname g, country g)) D)))"
  by (auto simp: groupby_productline_productname_country_sum_def groupby_def sum_total_sales_def)

lemma groupby2_keys:
  "map (\<lambda>r. (productname r, country r)) (groupby_productname_country_sum D)
     = sort (remdups (map (\<lambda>r. (productname r, country r)) D))"
  by (simp add: groupby_productname_country_sum_def groupby_def comp_def case_prod_beta)

lemma groupby2_total:
  "g \<in> set (groupby_productname_country_sum D) \<Longrightarrow>
   total_sales g = int64 (sum_list (map total_sales
     (filter (\<lambda>r. (productname r, country r) = (productname g, country g)) D)))"
  by (auto simp: groupby_productname_country_sum_def groupby_def sum_total_sales_def)

lemma groupby1_keys:
  "map productname (groupby_productname_sum D) = sort (remdups (map productname D))"
  by (simp add: groupby_productname_sum_def groupby_def comp_def)

lemma groupby1_total:
  "g \<in> set (groupby_productname_sum D) \<Longrightarrow>
   total_sales g = int64 (sum_list (map total_sales (filter (\<lambda>r. productname r = productname g) D)))"
  by (auto simp: groupby_productname_sum_def groupby_def sum_total_sales_def)

text \<open>
  In each of the four combinations of selections, the frame the function ends with
  aggregates, by product name, the rows of the date range that match the selections.
\<close>

lemma aggregate_of_cong:
  "aggregate_of key P D F \<Longrightarrow> (\<And>r. P r = Q r) \<Longrightarrow> aggregate_of key Q D F"
proof -
  assume a: "aggregate_of key P D F" and "\<And>r. P r = Q r"
  then have "P = Q" by (simp add: fun_eq_iff)
  with a show ?thesis by simp
qed

lemma filter_and_aggregate_rows:
  "aggregate_of productname (chosen c pl)
     (drop_orderdate (filter (\<lambda>r. orderdate r \<ge> s \<and> orderdate r \<le> e) df))
     (filter_and_aggregate df s e c pl)"
proof -
  define D where "D = drop_orderdate (filter (\<lambda>r. orderdate r \<ge> s \<and> orderdate r \<le> e) df)"
  have frame_eq: "filter_and_aggregate df s e c pl =
     (let F = groupby_productline_productname_country_sum D;
          F = (if pl \<noteq> ''ALL''
               then filter (\<lambda>r. productline r = pl) F
               else groupby_productname_country_sum F)
      in if c \<noteq> ''ALL''
         then filter (\<lambda>r. country r = c) F
         else groupby_productname_sum F)"
    by (simp add: filter_and_aggregate_def D_def Let_def)
  have "aggregate_of productname (chosen c pl) D (filter_and_aggregate df s e c pl)"
  proof -
  let ?k3 = "\<lambda>r::row. (productline r, productname r, country r)"
  let ?k2 = "\<lambda>r::row. (productname r, country r)"
  let ?G3 = "groupby_productline_productname_country_sum D"
  have a3: "aggregate_of ?k3 (\<lambda>_. True) D ?G3"
    by (rule aggregate_of_groupby[OF groupby3_keys]) (rule groupby3_total)
  show ?thesis
  proof (cases "pl \<noteq> ''ALL''")
    case pl: True
    let ?F = "filter (\<lambda>r. productline r = pl) ?G3"
    have aF: "aggregate_of ?k3 (\<lambda>r. productline r = pl) D ?F"
      using aggregate_of_filter[OF a3, where q = "\<lambda>k. fst k = pl"] by simp
    show ?thesis
    proof (cases "c \<noteq> ''ALL''")
      case c: True
      let ?H = "filter (\<lambda>r. country r = c) ?F"
      have "aggregate_of ?k3 (\<lambda>r. productline r = pl \<and> country r = c) D ?H"
        using aggregate_of_filter[OF aF, where q = "\<lambda>k. snd (snd k) = c"] by simp
      then have "aggregate_of ?k3 (chosen c pl) D ?H"
        by (rule aggregate_of_cong) (simp add: chosen_def pl c)
      then have "aggregate_of productname (chosen c pl) D ?H"
        by (rule aggregate_of_coarsen[where h = "\<lambda>k. fst (snd k)"]) (auto simp: chosen_def pl c)
      then show ?thesis unfolding frame_eq using pl c by simp
    next
      case False
      then have c: "c = ''ALL''" by simp
      have "aggregate_of ?k3 (chosen c pl) D ?F"
        using aF by (rule aggregate_of_cong) (simp add: chosen_def pl c)
      then have "aggregate_of productname (chosen c pl) D (groupby_productname_sum ?F)"
        by (rule aggregate_of_regroup[where h = "\<lambda>k. fst (snd k)"]) (simp_all add: groupby1_keys groupby1_total)
      then show ?thesis unfolding frame_eq using pl c by simp
    qed
  next
    case False
    then have pl: "pl = ''ALL''" by simp
    let ?F = "groupby_productname_country_sum ?G3"
    have a2: "aggregate_of ?k2 (\<lambda>_. True) D ?F"
      using a3 by (rule aggregate_of_regroup[where h = "\<lambda>k. snd k"]) (simp_all add: groupby2_keys groupby2_total)
    show ?thesis
    proof (cases "c \<noteq> ''ALL''")
      case c: True
      let ?H = "filter (\<lambda>r. country r = c) ?F"
      have "aggregate_of ?k2 (\<lambda>r. country r = c) D ?H"
        using aggregate_of_filter[OF a2, where q = "\<lambda>k. snd k = c"] by simp
      then have "aggregate_of ?k2 (chosen c pl) D ?H"
        by (rule aggregate_of_cong) (simp add: chosen_def pl c)
      then have "aggregate_of productname (chosen c pl) D ?H"
        by (rule aggregate_of_coarsen[where h = "\<lambda>k. fst k"]) (auto simp: chosen_def pl c)
      then show ?thesis unfolding frame_eq using pl c by simp
    next
      case False
      then have c: "c = ''ALL''" by simp
      have "aggregate_of ?k2 (chosen c pl) D ?F"
        using a2 by (rule aggregate_of_cong) (simp add: chosen_def pl c)
      then have "aggregate_of productname (chosen c pl) D (groupby_productname_sum ?F)"
        by (rule aggregate_of_regroup[where h = "\<lambda>k. fst k"]) (simp_all add: groupby1_keys groupby1_total)
      then show ?thesis unfolding frame_eq using pl c by simp
    qed
  qed
qed
  then show ?thesis by (simp add: D_def)
qed


section \<open>The frame the function plots from\<close>

text \<open>
  The same in terms of the table itself: the product names of the frame, ascending and
  without repetition, are those of the matching rows in the date range, and each row's
  total is the sum over these rows.
\<close>

lemma chosen_drop [simp]:
  "chosen c pl \<lparr>productline = productline r, productname = productname r,
               country = country r, total_sales = total_sales r\<rparr> = chosen c pl r"
  by (simp add: chosen_def)


lemma names_drop_orderdate:
  "productname ` {r \<in> set (drop_orderdate (filter (\<lambda>r. orderdate r \<ge> s \<and> orderdate r \<le> e) df)). chosen c pl r}
   = productname ` {r \<in> set df. s \<le> orderdate r \<and> orderdate r \<le> e \<and> chosen c pl r}"
  by (auto simp: drop_orderdate_def image_iff) force

lemma names_strict_sorted:
  "sorted_wrt (<) (map productname (filter_and_aggregate df s e c pl))"
  using filter_and_aggregate_rows[of c pl s e df] by (simp add: aggregate_of_def)

lemma names_set:
  "set (map productname (filter_and_aggregate df s e c pl))
   = productname ` {r \<in> set df. s \<le> orderdate r \<and> orderdate r \<le> e \<and> chosen c pl r}"
  using filter_and_aggregate_rows[of c pl s e df]
  unfolding aggregate_of_def names_drop_orderdate by blast




lemma frame_empty_iff:
  "filter_and_aggregate df s e c pl = [] \<longleftrightarrow>
   (\<forall>r\<in>set df. \<not> (s \<le> orderdate r \<and> orderdate r \<le> e \<and> chosen c pl r))"
proof -
  have "filter_and_aggregate df s e c pl = [] \<longleftrightarrow> set (map productname (filter_and_aggregate df s e c pl)) = {}"
    by simp
  also have "\<dots> \<longleftrightarrow> (\<forall>r\<in>set df. \<not> (s \<le> orderdate r \<and> orderdate r \<le> e \<and> chosen c pl r))"
    unfolding names_set by auto
  finally show ?thesis .
qed


section \<open>What a call of the plotting function does\<close>

text \<open>
  The outcome of a call by cases on the frame: the no-sales message for an empty frame,
  otherwise the bar-plot call, then \<^verbatim>\<open>ax.set\<close> or the printed \<^verbatim>\<open>error\<close>.
\<close>

lemma new_events_emit [simp]:
  "new_events nb (nb\<lparr>events := events nb @ es\<rparr>) = es"
  by (simp add: new_events_def)

lemma plot_empty:
  assumes "filter_and_aggregate (product_sales_df nb) s e c pl = []"
  shows "plot_top_n_sales lib s e c pl n nb =
     (Returns, emit (Print (''There were no sales of '' @ pl @ '' to '' @ c @ '' during that period'')) nb)"
  using assms by (simp add: plot_top_n_sales_def)

lemma plot_nonempty:
  assumes "filter_and_aggregate (product_sales_df nb) s e c pl \<noteq> []"
  shows "plot_top_n_sales lib s e c pl n nb =
     (let data = head n (sort_values_total_sales_desc (filter_and_aggregate (product_sales_df nb) s e c pl));
          title = build_title c pl n
      in (Returns, nb\<lparr>events := events nb @
            (Barplot ''total_sales'' ''productname'' data #
             (case barplot lib ''total_sales'' ''productname'' data of
                Some ex \<Rightarrow> [Print ''error'']
              | None \<Rightarrow>
                  AxSet ''Total Sales'' ''Product Name'' title #
                  (case ax_set lib ''Total Sales'' ''Product Name'' title of
                     Some ex \<Rightarrow> [Print ''error'']
                   | None \<Rightarrow> [])))\<rparr>))"
  using assms
  by (simp add: plot_top_n_sales_def try_body_def emit_def Let_def split: option.splits)

lemma plot_returns: "fst (plot_top_n_sales lib s e c pl n nb) = Returns"
  by (cases "filter_and_aggregate (product_sales_df nb) s e c pl = []")
     (simp_all add: plot_empty plot_nonempty Let_def)

lemma plot_table: "product_sales_df (snd (plot_top_n_sales lib s e c pl n nb)) = product_sales_df nb"
  by (cases "filter_and_aggregate (product_sales_df nb) s e c pl = []")
     (simp_all add: plot_empty plot_nonempty Let_def emit_def)

lemma plot_barplot_data:
  "barplot_data (new_events nb (snd (plot_top_n_sales lib s e c pl n nb))) =
     (if filter_and_aggregate (product_sales_df nb) s e c pl = [] then []
      else [head n (sort_values_total_sales_desc (filter_and_aggregate (product_sales_df nb) s e c pl))])"
  by (cases "filter_and_aggregate (product_sales_df nb) s e c pl = []")
     (simp_all add: plot_empty plot_nonempty Let_def emit_def split: option.splits)

lemma plot_barplot_mem:
  "Barplot x y data \<in> set (new_events nb (snd (plot_top_n_sales lib s e c pl n nb))) \<longleftrightarrow>
     filter_and_aggregate (product_sales_df nb) s e c pl \<noteq> [] \<and>
     x = ''total_sales'' \<and> y = ''productname'' \<and>
     data = head n (sort_values_total_sales_desc (filter_and_aggregate (product_sales_df nb) s e c pl))"
  by (cases "filter_and_aggregate (product_sales_df nb) s e c pl = []")
     (auto simp add: plot_empty plot_nonempty Let_def emit_def split: option.splits)


lemma set_sort_values [simp]: "set (sort_values_total_sales_desc F) = set F"
  by (simp add: sort_values_total_sales_desc_def)

lemma length_sort_values [simp]: "length (sort_values_total_sales_desc F) = length F"
  by (simp add: sort_values_total_sales_desc_def)

lemma length_head: "0 \<le> n \<Longrightarrow> int (length (head n xs)) = min n (int (length xs))"
  by (simp add: head_def)




lemma staged_frame_eq:
  "staged_frame df s e c pl = filter_and_aggregate df s e c pl"
  by (simp add: staged_frame_def filter_and_aggregate_def spec_country_step_def
      spec_product_line_step_def spec_filter_by_date_range_def Let_def conj_commute)

lemma sorted_sort_values:
  "sorted_wrt (\<lambda>a b. total_sales b \<le> total_sales a) (sort_values_total_sales_desc F)"
proof -
  have "sorted (map (\<lambda>r. - total_sales r) (sort_values_total_sales_desc F))"
    by (simp add: sort_values_total_sales_desc_def)
  then show ?thesis by (simp add: sorted_map)
qed

lemma sorted_head:
  "sorted_wrt R xs \<Longrightarrow> sorted_wrt R (head n xs)"
  by (simp add: head_def sorted_wrt_take)

section \<open>The function on the store\<close>

text \<open>
  Every step of the function keeps the store: it reads objects and builds new ones at the
  end of the store, and overwrites none.
\<close>

lemma store_kept_refl: "store_kept w w"
  by (simp add: store_kept_def)

lemma store_kept_trans: "store_kept w w' \<Longrightarrow> store_kept w' w'' \<Longrightarrow> store_kept w w''"
proof -
  assume a: "store_kept w w'" and b: "store_kept w' w''"
  from a have le: "length (objects w) \<le> length (objects w')" by (simp add: store_kept_def)
  then have "take (length (objects w)) (take (length (objects w')) (objects w''))
      = take (length (objects w)) (objects w'')"
    by (simp add: min_absorb1)
  moreover from b have "take (length (objects w')) (objects w'') = objects w'"
    by (simp add: store_kept_def)
  ultimately have "take (length (objects w)) (objects w'') = take (length (objects w)) (objects w')"
    by simp
  with a b show ?thesis by (simp add: store_kept_def)
qed

lemma keeps_bind: "keeps m \<Longrightarrow> (\<And>a. keeps (f a)) \<Longrightarrow> keeps (py_bind m f)"
  unfolding keeps_def
proof
  fix w assume m: "\<forall>w. store_kept w (snd (m w))" and f: "\<And>a. \<forall>w. store_kept w (snd (f a w))"
  show "store_kept w (snd (py_bind m f w))"
  proof (cases "m w")
    case (Pair res w')
    then have k: "store_kept w w'" using m[rule_format, of w] by simp
    show ?thesis
    proof (cases res)
      case (Inl ex)
      then show ?thesis using Pair k by (simp add: py_bind_def)
    next
      case (Inr a)
      then have "py_bind m f w = f a w'" using Pair by (simp add: py_bind_def)
      then show ?thesis using k f[of a, rule_format, of w'] by (auto intro: store_kept_trans)
    qed
  qed
qed

lemma keeps_return [simp]: "keeps (py_return a)"
  by (simp add: keeps_def py_return_def store_kept_refl)

lemma keeps_raise [simp]: "keeps (py_raise n)"
  by (simp add: keeps_def py_raise_def store_kept_refl)

lemma keeps_new_object [simp]: "keeps (new_object f)"
  by (simp add: keeps_def new_object_def store_kept_def)

lemma keeps_emit [simp]: "keeps (emit_obj ev)"
  by (simp add: keeps_def emit_obj_def store_kept_def)

lemma keeps_global [simp]: "keeps global_product_sales_df"
  by (simp add: keeps_def global_product_sales_df_def store_kept_refl)

lemma keeps_sale_rows [simp]: "keeps (sale_rows r)"
  by (simp add: keeps_def sale_rows_def py_raise_def py_return_def store_kept_refl
      split: option.splits frame.splits)

lemma keeps_plain_rows [simp]: "keeps (plain_rows r)"
  by (simp add: keeps_def plain_rows_def py_raise_def py_return_def store_kept_refl
      split: option.splits frame.splits)

lemma keeps_if: "keeps a \<Longrightarrow> keeps b \<Longrightarrow> keeps (if c then a else b)"
  by simp

lemma keeps_result_frame [simp]: "keeps (result_frame res)"
  by (cases res) (simp_all add: result_frame_def)

lemma keeps_getitem_sale_mask [simp]: "keeps (getitem_sale_mask keep r)"
  by (simp add: getitem_sale_mask_def keeps_bind)

lemma keeps_getitem_mask [simp]: "keeps (getitem_mask keep r)"
  by (simp add: getitem_mask_def keeps_bind)

lemma keeps_drop [simp]: "keeps (drop_orderdate_axis1 False r)"
  by (simp add: drop_orderdate_axis1_def keeps_bind)

lemma keeps_groupby_sum [simp]: "keeps (groupby_sum_obj f r)"
  by (simp add: groupby_sum_obj_def keeps_bind)

lemma keeps_reset_index [simp]: "keeps (reset_index False r)"
  by (simp add: reset_index_def keeps_bind)

lemma keeps_sort_values [simp]: "keeps (sort_values_obj False r)"
  by (simp add: sort_values_obj_def keeps_bind)

lemma keeps_head [simp]: "keeps (head_obj n r)"
  by (simp add: head_obj_def keeps_bind)

lemma keeps_empty [simp]: "keeps (empty_obj r)"
  by (simp add: empty_obj_def keeps_bind)

lemma keeps_call_barplot [simp]: "keeps (call_barplot lib x y r)"
proof -
  have "keeps (\<lambda>w. case barplot lib x y data of Some ex \<Rightarrow> (Inl ex, w) | None \<Rightarrow> (Inr (), w))" for data
    by (simp add: keeps_def store_kept_refl split: option.splits)
  then show ?thesis by (simp add: call_barplot_def keeps_bind)
qed

lemma keeps_call_ax_set [simp]: "keeps (call_ax_set lib xl yl t)"
proof -
  have "keeps (\<lambda>w. case ax_set lib xl yl t of Some ex \<Rightarrow> (Inl ex, w) | None \<Rightarrow> (Inr (), w))"
    by (simp add: keeps_def store_kept_refl split: option.splits)
  then show ?thesis by (simp add: call_ax_set_def keeps_bind)
qed

lemma keeps_try_except: "keeps body \<Longrightarrow> keeps handler \<Longrightarrow> keeps (try_except body handler)"
  unfolding keeps_def
proof
  fix w assume b: "\<forall>w. store_kept w (snd (body w))" and h: "\<forall>w. store_kept w (snd (handler w))"
  show "store_kept w (snd (try_except body handler w))"
  proof (cases "body w")
    case (Pair res w')
    then have k: "store_kept w w'" using b[rule_format, of w] by simp
    show ?thesis
    proof (cases res)
      case (Inl ex)
      then have "try_except body handler w = handler w'" using Pair by (simp add: try_except_def)
      then show ?thesis using k h[rule_format, of w'] by (auto intro: store_kept_trans)
    next
      case (Inr a)
      then show ?thesis using Pair k by (simp add: try_except_def)
    qed
  qed
qed

lemma keeps_plot: "keeps (plot_top_n_sales_obj lib s e c pl n)"
  unfolding plot_top_n_sales_obj_def filtered_df_obj_def try_body_obj_def
  by (intro keeps_bind keeps_if keeps_try_except) simp_all

text \<open>
  From a state in which the global name refers to a table \<open>df\<close>, the function on the store
  reaches its plotting part with \<^verbatim>\<open>filtered_df\<close> bound to a frame that holds
  \<open>filter_and_aggregate df\<close>, and then adds the events that \<open>plot_top_n_sales\<close> adds.
\<close>

lemma gives_bind:
  assumes "gives m w Q" and "\<And>a w'. Q a w' \<Longrightarrow> gives (f a) w' R"
  shows "gives (py_bind m f) w R"
proof -
  from assms(1) obtain a w' where m: "m w = (Inr a, w')" and e: "emitted w' = emitted w" and q: "Q a w'"
    by (auto simp: gives_def)
  from assms(2)[OF q] obtain b w'' where f: "f a w' = (Inr b, w'')" and e': "emitted w'' = emitted w'"
    and r: "R b w''"
    by (auto simp: gives_def)
  have "py_bind m f w = (Inr b, w'')" using m f by (simp add: py_bind_def)
  then show ?thesis using e e' r by (auto simp: gives_def)
qed

lemma gives_return: "Q a w \<Longrightarrow> gives (py_return a) w Q"
  by (simp add: gives_def py_return_def)

lemma gives_new_object: "gives (new_object f) w (\<lambda>a w'. object_at w' a = Some f)"
  by (simp add: gives_def new_object_def object_at_def)

lemma gives_global:
  "gives global_product_sales_df w (\<lambda>a w'. a = product_sales_df_ref w \<and> w' = w)"
  by (simp add: gives_def global_product_sales_df_def)

lemma gives_sale_rows:
  "object_at w r = Some (SaleFrame rows) \<Longrightarrow> gives (sale_rows r) w (\<lambda>x w'. x = rows)"
  by (simp add: gives_def sale_rows_def py_return_def)

lemma gives_plain_rows:
  "object_at w r = Some (RowFrame rows) \<Longrightarrow> gives (plain_rows r) w (\<lambda>x w'. x = rows \<and> w' = w)"
  by (simp add: gives_def plain_rows_def py_return_def)

lemma gives_result_frame: "gives (result_frame (Some a)) w (\<lambda>b w'. b = a \<and> w' = w)"
  by (simp add: gives_def result_frame_def py_return_def)

lemma gives_getitem_sale_mask:
  assumes "object_at w r = Some (SaleFrame rows)"
  shows "gives (getitem_sale_mask keep r) w (\<lambda>a w'. object_at w' a = Some (SaleFrame (filter keep rows)))"
  unfolding getitem_sale_mask_def
  by (rule gives_bind[OF gives_sale_rows[OF assms]]) (simp add: gives_new_object)

lemma gives_getitem_mask:
  assumes "object_at w r = Some (RowFrame rows)"
  shows "gives (getitem_mask keep r) w (\<lambda>a w'. object_at w' a = Some (RowFrame (filter keep rows)))"
  unfolding getitem_mask_def
  by (rule gives_bind[OF gives_plain_rows[OF assms]]) (simp add: gives_new_object)

lemma gives_new_frame:
  "gives (py_bind (new_object f) (\<lambda>a. py_return (Some a))) w
     (\<lambda>res w'. \<exists>a. res = Some a \<and> object_at w' a = Some f)"
  by (rule gives_bind[OF gives_new_object]) (simp add: gives_return)

lemma gives_then_result:
  assumes "gives m w (\<lambda>res w'. \<exists>a. res = Some a \<and> object_at w' a = Some f)"
  shows "gives (py_bind m result_frame) w (\<lambda>a w'. object_at w' a = Some f)"
proof (rule gives_bind[OF assms])
  fix res w' assume "\<exists>a. res = Some a \<and> object_at w' a = Some f"
  then obtain a where "res = Some a" "object_at w' a = Some f" by blast
  then show "gives (result_frame res) w' (\<lambda>a w'. object_at w' a = Some f)"
    by (simp add: gives_def result_frame_def py_return_def)
qed

lemma gives_drop:
  assumes "object_at w r = Some (SaleFrame rows)"
  shows "gives (py_bind (drop_orderdate_axis1 False r) result_frame) w
           (\<lambda>a w'. object_at w' a = Some (RowFrame (drop_orderdate rows)))"
proof (rule gives_then_result)
  show "gives (drop_orderdate_axis1 False r) w
     (\<lambda>res w'. \<exists>a. res = Some a \<and> object_at w' a = Some (RowFrame (drop_orderdate rows)))"
    unfolding drop_orderdate_axis1_def
    by (rule gives_bind[OF gives_sale_rows[OF assms]]) (simp add: gives_new_frame)
qed

lemma gives_reset_index:
  assumes "object_at w r = Some (RowFrame rows)"
  shows "gives (reset_index False r) w (\<lambda>res w'. \<exists>a. res = Some a \<and> object_at w' a = Some (RowFrame rows))"
  unfolding reset_index_def
  by (rule gives_bind[OF gives_plain_rows[OF assms]]) (simp add: gives_new_frame)

lemma gives_groupby_sum:
  assumes "object_at w r = Some (RowFrame rows)"
  shows "gives (py_bind (py_bind (groupby_sum_obj summed r) (reset_index False)) result_frame) w
           (\<lambda>a w'. object_at w' a = Some (RowFrame (summed rows)))"
proof (rule gives_then_result)
  have "gives (groupby_sum_obj summed r) w (\<lambda>a w'. object_at w' a = Some (RowFrame (summed rows)))"
    unfolding groupby_sum_obj_def
    by (rule gives_bind[OF gives_plain_rows[OF assms]]) (simp add: gives_new_object)
  then show "gives (py_bind (groupby_sum_obj summed r) (reset_index False)) w
     (\<lambda>res w'. \<exists>a. res = Some a \<and> object_at w' a = Some (RowFrame (summed rows)))"
    by (rule gives_bind) (rule gives_reset_index)
qed

lemma gives_sort_values:
  assumes "object_at w r = Some (RowFrame rows)"
  shows "gives (py_bind (sort_values_obj False r) result_frame) w
           (\<lambda>a w'. object_at w' a = Some (RowFrame (sort_values_total_sales_desc rows)))"
proof (rule gives_then_result)
  show "gives (sort_values_obj False r) w
     (\<lambda>res w'. \<exists>a. res = Some a \<and> object_at w' a = Some (RowFrame (sort_values_total_sales_desc rows)))"
    unfolding sort_values_obj_def
    by (rule gives_bind[OF gives_plain_rows[OF assms]]) (simp add: gives_new_frame)
qed

lemma gives_head:
  assumes "object_at w r = Some (RowFrame rows)"
  shows "gives (head_obj n r) w (\<lambda>a w'. object_at w' a = Some (RowFrame (head n rows)))"
  unfolding head_obj_def
  by (rule gives_bind[OF gives_plain_rows[OF assms]]) (simp add: gives_new_object)

lemma gives_step:
  assumes "object_at w r = Some (RowFrame rows)"
  shows "gives (if sel \<noteq> ''ALL'' then getitem_mask keep r
                else py_bind (py_bind (groupby_sum_obj summed r) (reset_index False)) result_frame) w
           (\<lambda>a w'. object_at w' a =
              Some (RowFrame (if sel \<noteq> ''ALL'' then filter keep rows else summed rows)))"
  using gives_getitem_mask[OF assms, of keep] gives_groupby_sum[OF assms, of summed] by simp

lemma gives_filtered_df:
  assumes "object_at w (product_sales_df_ref w) = Some (SaleFrame df)"
  shows "gives (filtered_df_obj s e c pl) w
           (\<lambda>a w'. object_at w' a = Some (RowFrame (filter_and_aggregate df s e c pl)))"
proof -
  have "gives (filtered_df_obj s e c pl) w
     (\<lambda>a w'. object_at w' a = Some (RowFrame
        (if c \<noteq> ''ALL''
         then filter (\<lambda>r. country r = c)
               (if pl \<noteq> ''ALL''
                then filter (\<lambda>r. productline r = pl)
                      (groupby_productline_productname_country_sum
                        (drop_orderdate (filter (\<lambda>r. orderdate r \<ge> s \<and> orderdate r \<le> e) df)))
                else groupby_productname_country_sum
                      (groupby_productline_productname_country_sum
                        (drop_orderdate (filter (\<lambda>r. orderdate r \<ge> s \<and> orderdate r \<le> e) df))))
         else groupby_productname_sum
               (if pl \<noteq> ''ALL''
                then filter (\<lambda>r. productline r = pl)
                      (groupby_productline_productname_country_sum
                        (drop_orderdate (filter (\<lambda>r. orderdate r \<ge> s \<and> orderdate r \<le> e) df)))
                else groupby_productname_country_sum
                      (groupby_productline_productname_country_sum
                        (drop_orderdate (filter (\<lambda>r. orderdate r \<ge> s \<and> orderdate r \<le> e) df)))))))"
    unfolding filtered_df_obj_def
    apply (rule gives_bind[OF gives_global])
    apply (erule conjE)
    apply (rule gives_bind)
     apply (rule gives_getitem_sale_mask[where rows = df])
     apply (simp add: assms)
    apply (rule gives_bind)
     apply (erule gives_drop)
    apply (rule gives_bind)
     apply (erule gives_groupby_sum)
    apply (rule gives_bind)
     apply (erule gives_step)
    apply (rule gives_bind)
     apply (erule gives_step)
    apply (erule gives_return)
    done
  then show ?thesis by (simp add: filter_and_aggregate_def Let_def)
qed

lemma tail_events:
  assumes "object_at w a = Some (RowFrame F)"
  shows "fst (py_bind (empty_obj a) (\<lambda>empty.
            if \<not> empty
            then try_except (try_body_obj lib a title n) (emit_obj (Print ''error''))
            else emit_obj (Print msg)) w) = Inr ()
       \<and> emitted (snd (py_bind (empty_obj a) (\<lambda>empty.
            if \<not> empty
            then try_except (try_body_obj lib a title n) (emit_obj (Print ''error''))
            else emit_obj (Print msg)) w)) =
         emitted w @
           (if F = [] then [Print msg]
            else Barplot ''total_sales'' ''productname'' (head n (sort_values_total_sales_desc F)) #
                 (case barplot lib ''total_sales'' ''productname''
                         (head n (sort_values_total_sales_desc F)) of
                    Some ex \<Rightarrow> [Print ''error'']
                  | None \<Rightarrow>
                      AxSet ''Total Sales'' ''Product Name'' title #
                      (case ax_set lib ''Total Sales'' ''Product Name'' title of
                         Some ex \<Rightarrow> [Print ''error'']
                       | None \<Rightarrow> [])))"
proof -
  from assms have g: "a < length (objects w)" and t: "objects w ! a = RowFrame F"
    by (auto simp: object_at_def split: if_splits)
  show ?thesis
    using g t
    by (simp add: try_body_obj_def py_bind_def py_return_def py_raise_def try_except_def
        object_at_def new_object_def plain_rows_def sort_values_obj_def head_obj_def
        result_frame_def empty_obj_def emit_obj_def call_barplot_def call_ax_set_def
        nth_append split: option.splits)
qed

lemma plot_obj_simulates:
  assumes "object_at w (product_sales_df_ref w) = Some (SaleFrame df)"
  shows "fst (plot_top_n_sales_obj lib s e c pl n w) = Inr ()
       \<and> emitted (snd (plot_top_n_sales_obj lib s e c pl n w)) =
           events (snd (plot_top_n_sales lib s e c pl n \<lparr>product_sales_df = df, events = emitted w\<rparr>))"
proof -
  let ?F = "filter_and_aggregate df s e c pl"
  let ?msg = "''There were no sales of '' @ pl @ '' to '' @ c @ '' during that period''"
  let ?tail = "\<lambda>a. py_bind (empty_obj a) (\<lambda>empty.
            if \<not> empty
            then try_except (try_body_obj lib a (build_title c pl n) n) (emit_obj (Print ''error''))
            else emit_obj (Print ?msg))"
  from gives_filtered_df[OF assms, of s e c pl]
  obtain a w' where run: "filtered_df_obj s e c pl w = (Inr a, w')"
    and em: "emitted w' = emitted w"
    and obj: "object_at w' a = Some (RowFrame ?F)"
    by (auto simp: gives_def)
  have "plot_top_n_sales_obj lib s e c pl n w = ?tail a w'"
    using run by (simp add: plot_top_n_sales_obj_def py_bind_def)
  moreover note tail_events[OF obj, of lib "build_title c pl n" n ?msg]
  moreover have "events (snd (plot_top_n_sales lib s e c pl n \<lparr>product_sales_df = df, events = emitted w\<rparr>))
      = emitted w @
           (if ?F = [] then [Print ?msg]
            else Barplot ''total_sales'' ''productname'' (head n (sort_values_total_sales_desc ?F)) #
                 (case barplot lib ''total_sales'' ''productname''
                         (head n (sort_values_total_sales_desc ?F)) of
                    Some ex \<Rightarrow> [Print ''error'']
                  | None \<Rightarrow>
                      AxSet ''Total Sales'' ''Product Name'' (build_title c pl n) #
                      (case ax_set lib ''Total Sales'' ''Product Name'' (build_title c pl n) of
                         Some ex \<Rightarrow> [Print ''error'']
                       | None \<Rightarrow> [])))"
    by (cases "?F = []") (simp_all add: plot_empty plot_nonempty Let_def emit_def)
  ultimately show ?thesis using em by simp
qed

text \<open>
  The store can tell the difference: the same \<^verbatim>\<open>drop\<close> with \<^verbatim>\<open>inplace=True\<close>, called on
  the table itself, replaces the table, while the call as the source makes it leaves the
  table and adds a frame.
\<close>

lemma inplace_drop_overwrites:
  "objects (snd (drop_orderdate_axis1 True 0 sample_world)) = [RowFrame (drop_orderdate sample_df)]
   \<and> objects (snd (drop_orderdate_axis1 False 0 sample_world))
     = [SaleFrame sample_df, RowFrame (drop_orderdate sample_df)]"
  by (simp add: drop_orderdate_axis1_def sample_world_def py_bind_def sale_rows_def object_at_def
      py_return_def set_object_def new_object_def)

section \<open>The claims\<close>







text \<open>
  C3. For a \<open>top_n\<close> from 1 to 10, the number of rows handed to the bar plot is the smaller
  of \<open>top_n\<close> and the number of distinct product names in the filtered and aggregated
  frame; it never exceeds \<open>top_n\<close>. The count is taken over the bar-plot calls of the call
  (none when the frame is empty, one otherwise), and it is also the length of the data of
  each such call.
\<close>

theorem top_n_row_count:
  assumes "1 \<le> top_n" and "top_n \<le> 10"
  shows "int (sum_list (map length (barplot_data (new_events nb
           (snd (plot_top_n_sales lib start_date end_date country_arg productline_arg top_n nb)))))) =
           min top_n (int (card (productname `
             set (filter_and_aggregate (product_sales_df nb) start_date end_date country_arg productline_arg))))
         \<and> int (sum_list (map length (barplot_data (new_events nb
           (snd (plot_top_n_sales lib start_date end_date country_arg productline_arg top_n nb))))))
           \<le> top_n
         \<and> (Barplot x y data \<in> set (new_events nb
               (snd (plot_top_n_sales lib start_date end_date country_arg productline_arg top_n nb)))
            \<longrightarrow> int (length data) =
                  min top_n (int (card (productname `
                    set (filter_and_aggregate (product_sales_df nb) start_date end_date country_arg
                           productline_arg)))))"
proof -
  let ?F = "filter_and_aggregate (product_sales_df nb) start_date end_date country_arg productline_arg"
  have "distinct (map productname ?F)"
    using names_strict_sorted[of "product_sales_df nb" start_date end_date country_arg productline_arg]
    by (simp add: strict_sorted_iff)
  then have card: "card (productname ` set ?F) = length ?F"
    using distinct_card[of "map productname ?F"] by simp
  have len: "int (length (head top_n (sort_values_total_sales_desc ?F))) = min top_n (int (length ?F))"
    using assms(1) by (simp add: length_head)
  show ?thesis
    using assms(1) by (simp add: plot_barplot_data plot_barplot_mem card len)
qed

text \<open>
  The theorem at the sample table with \<open>top_n = 2\<close>: three distinct product names, two rows
  plotted.
\<close>

theorem top_n_row_count_witness:
  "(1::int) \<le> 2 \<and> (2::int) \<le> 10
   \<and> Barplot ''total_sales'' ''productname''
       [\<lparr>productline = ''CarsCars'', productname = ''A'', country = ''FRUS'', total_sales = 22\<rparr>,
        \<lparr>productline = ''Bikes'', productname = ''B'', country = ''US'', total_sales = 20\<rparr>]
       \<in> set (new_events sample_nb (snd (plot_top_n_sales lib_ok 1 3 ''ALL'' ''ALL'' 2 sample_nb)))
   \<and> card (productname ` set (filter_and_aggregate (product_sales_df sample_nb) 1 3 ''ALL'' ''ALL'')) = 3
   \<and> sum_list (map length (barplot_data (new_events sample_nb
         (snd (plot_top_n_sales lib_ok 1 3 ''ALL'' ''ALL'' 2 sample_nb))))) = 2"
proof -
  let ?d = "[\<lparr>productline = ''CarsCars'', productname = ''A'', country = ''FRUS'', total_sales = 22\<rparr>,
             \<lparr>productline = ''Bikes'', productname = ''B'', country = ''US'', total_sales = 20\<rparr>]"
  have h: "Barplot ''total_sales'' ''productname'' ?d
     \<in> set (new_events sample_nb (snd (plot_top_n_sales lib_ok 1 3 ''ALL'' ''ALL'' 2 sample_nb)))"
    by code_simp
  have a: "(1::int) \<le> 2" and b: "(2::int) \<le> 10" by simp_all
  have c: "card (productname ` set (filter_and_aggregate (product_sales_df sample_nb) 1 3 ''ALL'' ''ALL'')) = 3"
    by code_simp
  from top_n_row_count[OF a b, where nb = sample_nb and lib = lib_ok and start_date = 1
      and end_date = 3 and country_arg = "''ALL''" and productline_arg = "''ALL''"
      and x = "''total_sales''" and y = "''productname''" and data = ?d]
  show ?thesis using h c by simp
qed

text \<open>
  C4. On the specification's example table, with the range 2024-01-01 to 2024-01-31 (days
  19723 to 19753), \<^verbatim>\<open>country="ALL"\<close>, \<^verbatim>\<open>productline="Motorcycles"\<close> and \<open>top_n = 5\<close>, the
  filter and aggregate steps yield exactly one row, product P1 with total 100, and that
  row is what the bar plot receives, whatever the plotting library does.
\<close>

theorem spec_example_single_row:
  "map name_total (filter_and_aggregate spec_example_df 19723 19753 ''ALL'' ''Motorcycles'')
     = [(''P1'', 100)]
   \<and> map (map name_total)
       (barplot_data (new_events \<lparr>product_sales_df = spec_example_df, events = es\<rparr>
          (snd (plot_top_n_sales lib 19723 19753 ''ALL'' ''Motorcycles'' 5
                 \<lparr>product_sales_df = spec_example_df, events = es\<rparr>))))
     = [[(''P1'', 100)]]"
proof -
  have F: "filter_and_aggregate spec_example_df 19723 19753 ''ALL'' ''Motorcycles''
        = [\<lparr>productline = ''Motorcycles'', productname = ''P1'', country = ''USA'', total_sales = 100\<rparr>]"
    by code_simp
  have S: "head 5 (sort_values_total_sales_desc
             [\<lparr>productline = ''Motorcycles'', productname = ''P1'', country = ''USA'', total_sales = 100\<rparr>])
        = [\<lparr>productline = ''Motorcycles'', productname = ''P1'', country = ''USA'', total_sales = 100\<rparr>]"
    by code_simp
  show ?thesis
    by (simp add: plot_barplot_data F S name_total_def)
qed

text \<open>
  C5, as stated, fails. The listed steps (date filter, product-line step, country step,
  sort, top N, plot) leave out a step that changes the plotted data: after the date
  filter the function drops the order date and sums \<^verbatim>\<open>total_sales\<close> per product line,
  product name and country. On the sample table with \<^verbatim>\<open>country="US"\<close> and
  \<^verbatim>\<open>productline="Cars"\<close>, product A was sold in the US on two days of the range: the
  function plots one row with total 15, the listed steps alone give two rows, 10 and 5.
\<close>

theorem listed_steps_counterexample:
  "barplot_data (new_events sample_nb (snd (plot_top_n_sales lib_ok 1 3 ''US'' ''Cars'' 5 sample_nb)))
     = [[\<lparr>productline = ''Cars'', productname = ''A'', country = ''US'', total_sales = 15\<rparr>]]
   \<and> spec_top_n_sorted 5 (spec_listed_frame (product_sales_df sample_nb) 1 3 ''US'' ''Cars'')
     = [\<lparr>productline = ''Cars'', productname = ''A'', country = ''US'', total_sales = 10\<rparr>,
        \<lparr>productline = ''Cars'', productname = ''A'', country = ''US'', total_sales = 5\<rparr>]
   \<and> barplot_data (new_events sample_nb (snd (plot_top_n_sales lib_ok 1 3 ''US'' ''Cars'' 5 sample_nb)))
     \<noteq> [spec_top_n_sorted 5 (spec_listed_frame (product_sales_df sample_nb) 1 3 ''US'' ''Cars'')]"
  by code_simp

text \<open>
  C5, amended. The function filters by date range, then drops the order date and sums
  \<^verbatim>\<open>total_sales\<close> per product line, product name and country, then filters or aggregates
  by product line, then filters or aggregates by country, then sorts descending by the
  total, then takes the top N rows, then plots: the one bar-plot call of a call receives
  exactly the result of these steps in this order, its totals descending, and there is
  no bar-plot call when the frame is empty.
\<close>

theorem staged_steps:
  "barplot_data (new_events nb
      (snd (plot_top_n_sales lib start_date end_date country_arg productline_arg top_n nb))) =
     (if staged_frame (product_sales_df nb) start_date end_date country_arg productline_arg = [] then []
      else [spec_top_n_sorted top_n
              (staged_frame (product_sales_df nb) start_date end_date country_arg productline_arg)])
   \<and> (\<forall>data\<in>set (barplot_data (new_events nb
          (snd (plot_top_n_sales lib start_date end_date country_arg productline_arg top_n nb)))).
        sorted_wrt (\<lambda>a b. total_sales b \<le> total_sales a) data)"
proof -
  let ?F = "filter_and_aggregate (product_sales_df nb) start_date end_date country_arg productline_arg"
  have "sorted_wrt (\<lambda>a b. total_sales b \<le> total_sales a) (head top_n (sort_values_total_sales_desc ?F))"
    by (rule sorted_head) (rule sorted_sort_values)
  then show ?thesis
    by (simp add: plot_barplot_data staged_frame_eq spec_top_n_sorted_def)
qed

text \<open>The amended statement at the input of the counterexample: one row, total 15.\<close>

theorem staged_steps_witness:
  "barplot_data (new_events sample_nb (snd (plot_top_n_sales lib_ok 1 3 ''US'' ''Cars'' 5 sample_nb)))
     = [[\<lparr>productline = ''Cars'', productname = ''A'', country = ''US'', total_sales = 15\<rparr>]]
   \<and> staged_frame (product_sales_df sample_nb) 1 3 ''US'' ''Cars''
     = [\<lparr>productline = ''Cars'', productname = ''A'', country = ''US'', total_sales = 15\<rparr>]"
proof -
  have f: "staged_frame (product_sales_df sample_nb) 1 3 ''US'' ''Cars''
     = [\<lparr>productline = ''Cars'', productname = ''A'', country = ''US'', total_sales = 15\<rparr>]"
    by code_simp
  have t: "spec_top_n_sorted 5 [\<lparr>productline = ''Cars'', productname = ''A'', country = ''US'', total_sales = 15\<rparr>]
     = [\<lparr>productline = ''Cars'', productname = ''A'', country = ''US'', total_sales = 15\<rparr>]"
    by code_simp
  from staged_steps[where nb = sample_nb and lib = lib_ok and start_date = 1 and end_date = 3
      and country_arg = "''US''" and productline_arg = "''Cars''" and top_n = 5]
  show ?thesis by (simp add: f t)
qed

text \<open>
  C6. The function always returns normally. When the frame is not empty and the bar-plot
  call raises, the call's events are the bar-plot call and the printed string
  \<^verbatim>\<open>error\<close>; when the bar plot returns and \<^verbatim>\<open>ax.set\<close> raises, they are the two library
  calls and the printed \<^verbatim>\<open>error\<close>. When the frame is empty, the only event is the printed
  message naming the selected product line and country: no plot is attempted.
\<close>

theorem guard_and_no_sales:
  "fst (plot_top_n_sales lib start_date end_date country_arg productline_arg top_n nb) = Returns
   \<and> (filter_and_aggregate (product_sales_df nb) start_date end_date country_arg productline_arg \<noteq> []
        \<longrightarrow> barplot lib ''total_sales'' ''productname''
              (head top_n (sort_values_total_sales_desc
                 (filter_and_aggregate (product_sales_df nb) start_date end_date country_arg productline_arg)))
              = Some ex
        \<longrightarrow> new_events nb (snd (plot_top_n_sales lib start_date end_date country_arg productline_arg top_n nb))
              = [Barplot ''total_sales'' ''productname''
                   (head top_n (sort_values_total_sales_desc
                      (filter_and_aggregate (product_sales_df nb) start_date end_date country_arg productline_arg))),
                 Print ''error''])
   \<and> (filter_and_aggregate (product_sales_df nb) start_date end_date country_arg productline_arg \<noteq> []
        \<longrightarrow> barplot lib ''total_sales'' ''productname''
              (head top_n (sort_values_total_sales_desc
                 (filter_and_aggregate (product_sales_df nb) start_date end_date country_arg productline_arg)))
              = None
        \<longrightarrow> ax_set lib ''Total Sales'' ''Product Name'' (build_title country_arg productline_arg top_n)
              = Some ex
        \<longrightarrow> new_events nb (snd (plot_top_n_sales lib start_date end_date country_arg productline_arg top_n nb))
              = [Barplot ''total_sales'' ''productname''
                   (head top_n (sort_values_total_sales_desc
                      (filter_and_aggregate (product_sales_df nb) start_date end_date country_arg productline_arg))),
                 AxSet ''Total Sales'' ''Product Name'' (build_title country_arg productline_arg top_n),
                 Print ''error''])
   \<and> (filter_and_aggregate (product_sales_df nb) start_date end_date country_arg productline_arg = []
        \<longrightarrow> new_events nb (snd (plot_top_n_sales lib start_date end_date country_arg productline_arg top_n nb))
              = [Print (''There were no sales of '' @ productline_arg @ '' to '' @ country_arg
                        @ '' during that period'')])"
  by (simp add: plot_returns plot_empty plot_nonempty Let_def emit_def new_events_def)

text \<open>
  The three cases at the sample table: a library whose bar plot raises, one whose
  \<^verbatim>\<open>ax.set\<close> raises, and a country without sales.
\<close>

theorem guard_and_no_sales_witness:
  "new_events sample_nb (snd (plot_top_n_sales lib_barplot_raises 1 3 ''US'' ''ALL'' 5 sample_nb))
     = [Barplot ''total_sales'' ''productname''
          [\<lparr>productline = ''Bikes'', productname = ''B'', country = ''US'', total_sales = 20\<rparr>,
           \<lparr>productline = ''Cars'', productname = ''A'', country = ''US'', total_sales = 15\<rparr>],
        Print ''error'']
   \<and> new_events sample_nb (snd (plot_top_n_sales lib_ax_set_raises 1 3 ''ALL'' ''Bikes'' 1 sample_nb))
     = [Barplot ''total_sales'' ''productname''
          [\<lparr>productline = ''Bikes'', productname = ''B'', country = ''US'', total_sales = 20\<rparr>],
        AxSet ''Total Sales'' ''Product Name'' ''Top 1 Popular Bikes'',
        Print ''error'']
   \<and> new_events sample_nb (snd (plot_top_n_sales lib_ok 1 3 ''DE'' ''ALL'' 5 sample_nb))
     = [Print ''There were no sales of ALL to DE during that period'']"
proof -
  have f1: "filter_and_aggregate (product_sales_df sample_nb) 1 3 ''US'' ''ALL''
      = [\<lparr>productline = ''Cars'', productname = ''A'', country = ''US'', total_sales = 15\<rparr>,
         \<lparr>productline = ''Bikes'', productname = ''B'', country = ''US'', total_sales = 20\<rparr>]"
    by code_simp
  have h1: "head 5 (sort_values_total_sales_desc
         [\<lparr>productline = ''Cars'', productname = ''A'', country = ''US'', total_sales = 15\<rparr>,
          \<lparr>productline = ''Bikes'', productname = ''B'', country = ''US'', total_sales = 20\<rparr>])
      = [\<lparr>productline = ''Bikes'', productname = ''B'', country = ''US'', total_sales = 20\<rparr>,
         \<lparr>productline = ''Cars'', productname = ''A'', country = ''US'', total_sales = 15\<rparr>]"
    by code_simp
  have f2: "filter_and_aggregate (product_sales_df sample_nb) 1 3 ''ALL'' ''Bikes''
      = [\<lparr>productline = ''Bikes'', productname = ''B'', country = ''US'', total_sales = 20\<rparr>,
         \<lparr>productline = ''Bikes'', productname = ''C'', country = ''FR'', total_sales = 4\<rparr>]"
    by code_simp
  have h2: "head 1 (sort_values_total_sales_desc
         [\<lparr>productline = ''Bikes'', productname = ''B'', country = ''US'', total_sales = 20\<rparr>,
          \<lparr>productline = ''Bikes'', productname = ''C'', country = ''FR'', total_sales = 4\<rparr>])
      = [\<lparr>productline = ''Bikes'', productname = ''B'', country = ''US'', total_sales = 20\<rparr>]"
    by code_simp
  have t2: "build_title ''ALL'' ''Bikes'' 1 = ''Top 1 Popular Bikes''"
    by code_simp
  have f3: "filter_and_aggregate (product_sales_df sample_nb) 1 3 ''DE'' ''ALL'' = []"
    by code_simp
  have "new_events sample_nb (snd (plot_top_n_sales lib_barplot_raises 1 3 ''US'' ''ALL'' 5 sample_nb))
     = [Barplot ''total_sales'' ''productname''
          [\<lparr>productline = ''Bikes'', productname = ''B'', country = ''US'', total_sales = 20\<rparr>,
           \<lparr>productline = ''Cars'', productname = ''A'', country = ''US'', total_sales = 15\<rparr>],
        Print ''error'']"
    using guard_and_no_sales[where nb = sample_nb and lib = lib_barplot_raises and start_date = 1
        and end_date = 3 and country_arg = "''US''" and productline_arg = "''ALL''" and top_n = 5
        and ex = "Exn ''ValueError''"]
    by (simp add: f1 h1 lib_barplot_raises_def)
  moreover have "new_events sample_nb (snd (plot_top_n_sales lib_ax_set_raises 1 3 ''ALL'' ''Bikes'' 1 sample_nb))
     = [Barplot ''total_sales'' ''productname''
          [\<lparr>productline = ''Bikes'', productname = ''B'', country = ''US'', total_sales = 20\<rparr>],
        AxSet ''Total Sales'' ''Product Name'' ''Top 1 Popular Bikes'',
        Print ''error'']"
    using guard_and_no_sales[where nb = sample_nb and lib = lib_ax_set_raises and start_date = 1
        and end_date = 3 and country_arg = "''ALL''" and productline_arg = "''Bikes''" and top_n = 1
        and ex = "Exn ''AttributeError''"]
    by (simp add: f2 h2 t2 lib_ax_set_raises_def)
  moreover have "new_events sample_nb (snd (plot_top_n_sales lib_ok 1 3 ''DE'' ''ALL'' 5 sample_nb))
     = [Print ''There were no sales of ALL to DE during that period'']"
    using guard_and_no_sales[where nb = sample_nb and lib = lib_ok and start_date = 1
        and end_date = 3 and country_arg = "''DE''" and productline_arg = "''ALL''" and top_n = 5]
    by (simp add: f3)
  ultimately show ?thesis by blast
qed

text \<open>
  C7, as stated, fails on the count: the dashboard has five widgets, not four.
\<close>

theorem four_widgets_counterexample:
  "length (interact sample_df) = 5 \<and> length (interact sample_df) \<noteq> 4"
  by (simp add: interact_def)

text \<open>
  C7, amended. The dashboard has exactly five widgets: a start-date picker, an end-date
  picker, a country dropdown, a product-line dropdown and an integer slider with minimum
  1 and maximum 10. They drive one plot: a call of the function makes at most one
  bar-plot call.
\<close>

theorem five_widgets:
  "length (interact df) = 5
   \<and> map fst (interact df) = [''start_date'', ''end_date'', ''country'', ''productline'', ''top_n'']
   \<and> map snd (interact df) =
       [DatePicker (orderdate_min df) ''Start Date'',
        DatePicker (orderdate_max df) ''End Date'',
        Dropdown (''ALL'' # sort (remdups (map country df))) ''ALL'' ''Country'',
        Dropdown (''ALL'' # sort (remdups (map productline df))) ''ALL'' ''Product Line'',
        IntSlider 5 1 10 1 ''Top N'']
   \<and> length (barplot_data (new_events nb
        (snd (plot_top_n_sales lib start_date end_date country_arg productline_arg top_n nb)))) \<le> 1"
  by (simp add: interact_def country_widget_def productline_widget_def plot_barplot_data)

text \<open>
  C8. The crawler's source path is \<^verbatim>\<open>s3://<data_lake_bucket>/gold\<close>; the job's default
  arguments are \<^verbatim>\<open>--enable-job-insights\<close>, \<^verbatim>\<open>--job-language\<close>, \<^verbatim>\<open>--glue_connection\<close>,
  \<^verbatim>\<open>--glue_database\<close> and \<^verbatim>\<open>--target_path\<close>; its timeout is 5 (minutes); it uses 2 workers
  of type \<^verbatim>\<open>G.1X\<close>.
\<close>

theorem glue_constants:
  "s3_target_path (s3_crawler v) = ''s3://'' @ var_data_lake_bucket v @ ''/gold''
   \<and> map fst (default_arguments (etl_job v)) =
       [''--enable-job-insights'', ''--job-language'', ''--glue_connection'',
        ''--glue_database'', ''--target_path'']
   \<and> timeout (etl_job v) = 5
   \<and> number_of_workers (etl_job v) = 2
   \<and> worker_type (etl_job v) = ''G.1X''"
  by (simp add: s3_crawler_def etl_job_def)

text \<open>
  C9. On the store of objects: whatever the widget inputs and whatever the plotting library
  does, a call changes no object that was there before it and leaves the global name
  bound as it was; every filter, column drop and group-by of the call builds a new frame at
  the end of the store. So when the global name refers to a table before the call, it
  refers to the same, unchanged table after it; the call returns normally, its events are
  those of \<open>plot_top_n_sales\<close> on that table, and a second call with other selections
  starts from that table again.
\<close>

theorem table_unchanged:
  "take (length (objects w))
      (objects (snd (plot_top_n_sales_obj lib start_date end_date country_arg productline_arg top_n w)))
     = objects w
   \<and> product_sales_df_ref
        (snd (plot_top_n_sales_obj lib start_date end_date country_arg productline_arg top_n w))
     = product_sales_df_ref w
   \<and> (object_at w (product_sales_df_ref w) = Some (SaleFrame df) \<longrightarrow>
        object_at (snd (plot_top_n_sales_obj lib start_date end_date country_arg productline_arg top_n w))
          (product_sales_df_ref w) = Some (SaleFrame df)
        \<and> fst (plot_top_n_sales_obj lib start_date end_date country_arg productline_arg top_n w) = Inr ()
        \<and> emitted (snd (plot_top_n_sales_obj lib start_date end_date country_arg productline_arg top_n w))
          = events (snd (plot_top_n_sales lib start_date end_date country_arg productline_arg top_n
                           \<lparr>product_sales_df = df, events = emitted w\<rparr>))
        \<and> emitted (snd (plot_top_n_sales_obj lib' start_date' end_date' country_arg' productline_arg' top_n'
                          (snd (plot_top_n_sales_obj lib start_date end_date country_arg productline_arg
                                  top_n w))))
          = events (snd (plot_top_n_sales lib' start_date' end_date' country_arg' productline_arg' top_n'
                           \<lparr>product_sales_df = df,
                            events = emitted (snd (plot_top_n_sales_obj lib start_date end_date country_arg
                                                      productline_arg top_n w))\<rparr>)))"
proof -
  let ?w' = "snd (plot_top_n_sales_obj lib start_date end_date country_arg productline_arg top_n w)"
  have kept: "store_kept w ?w'"
    using keeps_plot[of lib start_date end_date country_arg productline_arg top_n]
    by (simp add: keeps_def)
  have still: "object_at ?w' (product_sales_df_ref w) = Some (SaleFrame df)"
    if h: "object_at w (product_sales_df_ref w) = Some (SaleFrame df)"
  proof -
    from h have g: "product_sales_df_ref w < length (objects w)"
      and t: "objects w ! product_sales_df_ref w = SaleFrame df"
      by (auto simp: object_at_def split: if_splits)
    from kept have "take (length (objects w)) (objects ?w') ! product_sales_df_ref w
        = objects w ! product_sales_df_ref w"
      by (simp add: store_kept_def)
    then have "objects ?w' ! product_sales_df_ref w = SaleFrame df"
      using g t by simp
    moreover from kept g have "product_sales_df_ref w < length (objects ?w')"
      by (simp add: store_kept_def)
    ultimately show ?thesis by (simp add: object_at_def)
  qed
  have again: "object_at ?w' (product_sales_df_ref ?w') = Some (SaleFrame df)"
    if h: "object_at w (product_sales_df_ref w) = Some (SaleFrame df)"
    using still[OF h] kept by (simp add: store_kept_def)
  show ?thesis
    using kept still plot_obj_simulates[of w df lib start_date end_date country_arg productline_arg top_n]
      plot_obj_simulates[OF again, of lib' start_date' end_date' country_arg' productline_arg' top_n']
    by (simp add: store_kept_def)
qed

text \<open>
  The theorem at the store that holds the sample table, for \<^verbatim>\<open>country="US"\<close> and
  \<^verbatim>\<open>productline="Cars"\<close>: after the call the store has eight frames more, the first
  object is still the sample table, and the events are the bar plot of A with 15 and its
  labels.
\<close>

theorem table_unchanged_witness:
  "object_at sample_world (product_sales_df_ref sample_world) = Some (SaleFrame sample_df)
   \<and> object_at (snd (plot_top_n_sales_obj lib_ok 1 3 ''US'' ''Cars'' 5 sample_world)) 0
     = Some (SaleFrame sample_df)
   \<and> length (objects (snd (plot_top_n_sales_obj lib_ok 1 3 ''US'' ''Cars'' 5 sample_world))) = 9
   \<and> emitted (snd (plot_top_n_sales_obj lib_ok 1 3 ''US'' ''Cars'' 5 sample_world))
     = [Barplot ''total_sales'' ''productname''
          [\<lparr>productline = ''Cars'', productname = ''A'', country = ''US'', total_sales = 15\<rparr>],
        AxSet ''Total Sales'' ''Product Name'' ''Top 5 Popular Cars in US'']"
proof -
  have h: "object_at sample_world (product_sales_df_ref sample_world) = Some (SaleFrame sample_df)"
    by (simp add: sample_world_def object_at_def)
  have v: "events (snd (plot_top_n_sales lib_ok 1 3 ''US'' ''Cars'' 5
                     \<lparr>product_sales_df = sample_df, events = emitted sample_world\<rparr>))
     = [Barplot ''total_sales'' ''productname''
          [\<lparr>productline = ''Cars'', productname = ''A'', country = ''US'', total_sales = 15\<rparr>],
        AxSet ''Total Sales'' ''Product Name'' ''Top 5 Popular Cars in US'']"
    by code_simp
  have n: "length (objects (snd (plot_top_n_sales_obj lib_ok 1 3 ''US'' ''Cars'' 5 sample_world))) = 9"
    by code_simp
  from table_unchanged[where w = sample_world and df = sample_df and lib = lib_ok and start_date = 1
      and end_date = 3 and country_arg = "''US''" and productline_arg = "''Cars''" and top_n = 5]
  show ?thesis using h v n by (simp add: sample_world_def)
qed

text \<open>
  C10. When \<open>start_date\<close> is after \<open>end_date\<close>, or no row of the table lies in the date
  range, the function returns normally, makes no library call and prints the no-sales
  message.
\<close>

theorem empty_range_no_sales:
  assumes "end_date < start_date \<or>
           (\<forall>r\<in>set (product_sales_df nb). \<not> (start_date \<le> orderdate r \<and> orderdate r \<le> end_date))"
  shows "plot_top_n_sales lib start_date end_date country_arg productline_arg top_n nb =
           (Returns, emit (Print (''There were no sales of '' @ productline_arg @ '' to '' @ country_arg
                                  @ '' during that period'')) nb)"
proof -
  from assms have "\<forall>r\<in>set (product_sales_df nb).
      \<not> (start_date \<le> orderdate r \<and> orderdate r \<le> end_date \<and> chosen country_arg productline_arg r)"
    by auto
  then have "filter_and_aggregate (product_sales_df nb) start_date end_date country_arg productline_arg = []"
    by (simp only: frame_empty_iff)
  then show ?thesis by (rule plot_empty)
qed

text \<open>
  The theorem at the sample table, once with the inverted range from day 3 to day 1 and
  once with the range from day 5 to day 6, in which no sale lies.
\<close>

theorem empty_range_no_sales_witness:
  "((1::int) < 3 \<or> (\<forall>r\<in>set (product_sales_df sample_nb). \<not> (3 \<le> orderdate r \<and> orderdate r \<le> 1)))
   \<and> plot_top_n_sales lib_ok 3 1 ''ALL'' ''ALL'' 5 sample_nb =
       (Returns, emit (Print ''There were no sales of ALL to ALL during that period'') sample_nb)
   \<and> ((6::int) < 5 \<or> (\<forall>r\<in>set (product_sales_df sample_nb). \<not> (5 \<le> orderdate r \<and> orderdate r \<le> 6)))
   \<and> plot_top_n_sales lib_ok 5 6 ''US'' ''Bikes'' 5 sample_nb =
       (Returns, emit (Print ''There were no sales of Bikes to US during that period'') sample_nb)"
proof -
  have h: "(1::int) < 3 \<or> (\<forall>r\<in>set (product_sales_df sample_nb). \<not> (3 \<le> orderdate r \<and> orderdate r \<le> 1))"
    by simp
  have k: "(6::int) < 5 \<or> (\<forall>r\<in>set (product_sales_df sample_nb). \<not> (5 \<le> orderdate r \<and> orderdate r \<le> 6))"
    by (simp add: sample_nb_def sample_df_def)
  from empty_range_no_sales[OF h, of lib_ok "''ALL''" "''ALL''" 5]
    empty_range_no_sales[OF k, of lib_ok "''US''" "''Bikes''" 5]
  show ?thesis using h k by simp
qed

end
